theory Spec2Isabelle
  imports Main "HOL-Library.Word"
begin

unbundle bit_operations_syntax

section \<open>Data model of srv\_ec\_aggregate.c\<close>

text \<open>
  The embedding follows \<^verbatim>\<open>src/object/srv_ec_aggregate.c\<close> function by function.
  Machine integers keep their C width: \<^verbatim>\<open>daos_off_t\<close>, \<^verbatim>\<open>daos_epoch_t\<close>,
  \<^verbatim>\<open>daos_size_t\<close> and \<^verbatim>\<open>uint64_t\<close> are 64-bit words, \<^verbatim>\<open>unsigned int\<close>,
  \<^verbatim>\<open>uint32_t\<close> and \<^verbatim>\<open>d_rank_t\<close> are 32-bit words, and every conversion between
  the two is an explicit \<open>ucast\<close>. Return codes are \<open>int\<close>.

  A failed \<^verbatim>\<open>D_ASSERT\<close> and a division by zero stop the process: functions that can
  reach one return an \<open>option\<close>, and \<open>None\<close> is that stop. A store past the end of an
  array of extents that \<^verbatim>\<open>D_ALLOC_ARRAY\<close> has allocated is the same \<open>None\<close>: C gives such
  a run no defined outcome, and no result is stated for it.

  A helper started with \<^verbatim>\<open>dss_ult_create\<close> is run in line: when the call succeeds the
  helper's body runs to its end, and \<^verbatim>\<open>ABT_eventual_wait\<close> then returns and yields the
  status the helper has set.

  The contents and the sizes of byte buffers, the keys (dkey, akey), the UUIDs and the
  codec tables are not part of the model. What the code does to the outside world is
  recorded as a list of events in program order; what the outside world answers (return
  codes of the store, of Argobots, of the RPC layer, of an allocation) is read from an
  environment, one answer per call site.
\<close>

type_synonym u32 = "32 word"
type_synonym u64 = "64 word"

record daos_recx =
  rx_idx :: u64
  rx_nr :: u64

record ec_agg_par_extent =
  ape_recx :: daos_recx
  ape_epoch :: u64

record ec_agg_extent =
  ae_recx :: daos_recx
  ae_epoch :: u64
  ae_hole :: bool

record ec_agg_stripe =
  as_stripenum :: u64
  as_hi_epoch :: u64
  as_dextents :: "ec_agg_extent list"
  as_stripe_fill :: u64
  as_extent_cnt :: u32
  as_offset :: u32
  as_prefix_ext :: u32
  as_suffix_ext :: u32
  as_has_holes :: bool

text \<open>The EC part of \<^verbatim>\<open>struct daos_oclass_attr\<close> (\<^verbatim>\<open>u.ec.e_k\<close>, \<^verbatim>\<open>u.ec.e_p\<close>,
  \<^verbatim>\<open>u.ec.e_len\<close>). The declaration is not in the repository's files; every function
  here reads the three fields into \<^verbatim>\<open>unsigned int\<close> locals, which is the width used.\<close>

record daos_oclass_attr =
  e_k :: u32
  e_p :: u32
  e_len :: u32

text \<open>\<^verbatim>\<open>struct ec_agg_entry\<close>. \<open>ae_oid_shard\<close> is \<^verbatim>\<open>ae_oid.id_shard\<close>; \<open>ae_obj_hdl\<close>
  is true when the object handle is valid (not \<^verbatim>\<open>DAOS_HDL_INVAL\<close>); \<open>ae_sgl_nr\<close> is
  \<^verbatim>\<open>ae_sgl.sg_nr\<close>, and \<open>ae_sgl_base\<close> counts by how many entries the pointer
  \<^verbatim>\<open>ae_sgl.sg_iovs\<close> currently stands past the start of the array it was allocated as.\<close>

record ec_agg_entry =
  ae_oid_shard :: u32
  ae_oca :: daos_oclass_attr
  ae_sgl_nr :: nat
  ae_sgl_base :: nat
  ae_rsize :: u64
  ae_cur_stripe :: ec_agg_stripe
  ae_par_extent :: ec_agg_par_extent
  ae_obj_hdl :: bool
  ae_peer_rank :: u32
  ae_peer_idx :: u32

text \<open>The fields of \<^verbatim>\<open>vos_iter_entry_t\<close> that \<^verbatim>\<open>agg_data_extent\<close> reads;
  \<open>ie_hole\<close> is \<^verbatim>\<open>ie_biov.bi_addr.ba_hole\<close>.\<close>

record vos_iter_entry =
  ie_recx :: daos_recx
  ie_epoch :: u64
  ie_rsize :: u64
  ie_hole :: bool

text \<open>The fields of the \<^verbatim>\<open>EC_AGGREGATE\<close> request that \<^verbatim>\<open>agg_peer_update_ult\<close> fills in
  from the stripe. The bulk handle is made over one iov; \<open>ea_bulk_off\<close> is the byte
  offset of that iov inside the \<^verbatim>\<open>AGG_IOV_PARITY\<close> buffer and \<open>ea_bulk_len\<close> its length.\<close>

record obj_ec_agg_in =
  ea_oid_shard :: u32
  ea_rsize :: u64
  ea_epoch :: u64
  ea_stripenum :: u64
  ea_prior_len :: u32
  ea_after_len :: u32
  ea_bulk_off :: u64
  ea_bulk_len :: u64

record obj_ec_rep_in =
  er_oid_shard :: u32
  er_iod_size :: u64
  er_iod_recxs :: "daos_recx list"
  er_stripenum :: u64
  er_epoch :: u64

text \<open>\<^verbatim>\<open>enum agg_iov_entry\<close>, as the indices it numbers.\<close>

definition AGG_IOV_DATA :: nat where "AGG_IOV_DATA = 0"
definition AGG_IOV_ODATA :: nat where "AGG_IOV_ODATA = 1"
definition AGG_IOV_PARITY :: nat where "AGG_IOV_PARITY = 2"
definition AGG_IOV_DIFF :: nat where "AGG_IOV_DIFF = 3"
definition AGG_IOV_CNT :: nat where "AGG_IOV_CNT = 4"

definition EC_AGG_CREDITS_MAX :: nat where "EC_AGG_CREDITS_MAX = 1024"

text \<open>Modelled from the spec: the macro \<^verbatim>\<open>PARITY_INDICATOR\<close> is not defined in the
  repository's files. The spec calls it the reserved high bit that is OR-ed into the
  index of a parity extent; on a 64-bit index that is bit 63.\<close>

definition PARITY_INDICATOR :: u64 where
  "PARITY_INDICATOR = push_bit 63 1"

text \<open>Modelled from the spec: the macro \<^verbatim>\<open>obj_ec_stripe_rec_nr\<close> is not defined in
  the repository's files. The spec says a stripe spans \<open>k * len\<close> record indices; the
  product is taken at the width of the \<^verbatim>\<open>unsigned int\<close> it is assigned to in
  \<^verbatim>\<open>agg_carry_over\<close>.\<close>

definition obj_ec_stripe_rec_nr :: "daos_oclass_attr \<Rightarrow> u32" where
  "obj_ec_stripe_rec_nr oca = e_k oca * e_len oca"

subsection \<open>The outside world\<close>

text \<open>One constructor per place where the code calls out and branches on the answer.\<close>

datatype site =
    ProbeIterate
  | PrepSglIovs | PrepSglBufs
  | StripeFetch
  | EncEvCreate | EncUltCreate | EncEvWait
  | LocalAllocRecxs | LocalAllocIovs | LocalFetch
  | PartEvCreate | PartUltCreate | PartEvWait
  | OdataAllocRecxs | OdataFetch
  | ObjOpen
  | RemoteParityFetch
  | XorGen nat
  | PeerEvCreate | PeerUltCreate | PeerEvWait
  | PeerReqCreate | PeerBulkCreate | PeerRpcSend | PeerReply
  | HolesEvCreate | HolesUltCreate | HolesEvWait
  | HolesAllocRecxs | HolesFetch | HolesReqCreate | HolesBulkCreate | HolesRpcSend
  | HolesReply | HolesVosUpdate | HolesVosRemove
  | CommitRemove | CommitUpdate
  | ExtentAlloc

text \<open>
  \<open>ret env s\<close> is the return code of the call at site \<open>s\<close>; at an allocation site, 0
  stands for a non-NULL pointer. \<open>abt_success\<close>, \<open>abterr2der\<close> and \<open>der_nomem\<close> stand
  for \<^verbatim>\<open>ABT_SUCCESS\<close>, \<^verbatim>\<open>dss_abterr2der\<close> and the value \<^verbatim>\<open>-DER_NOMEM\<close>, none of which
  the repository's files define. \<open>probe_entries\<close> are the extents the parity query of
  \<^verbatim>\<open>agg_process_stripe\<close> hands to its callback, in order. \<open>layout\<close> and \<open>myrank\<close> are
  what \<^verbatim>\<open>dc_obj_layout_get\<close> and \<^verbatim>\<open>crt_group_rank\<close> return: per shard, the
  (rank, target index) of each replica. \<open>bitmap_bits\<close> is the number of bits of a
  \<^verbatim>\<open>bit_map[OBJ_TGT_BITMAP_LEN]\<close>.
\<close>

record env =
  ret :: "site \<Rightarrow> int"
  abt_success :: int
  abterr2der :: "int \<Rightarrow> int"
  der_nomem :: int
  probe_entries :: "(daos_recx \<times> u64) list"
  myrank :: u32
  layout :: "(u32 \<times> u32) list list"
  bitmap_bits :: nat

text \<open>
  Events, in the order the calls are made. A fetch names the epoch and the extents of
  its iod; a remote fetch also names the buffer slot its first iov is (counted from the
  start of the sgl array) and the shard it is sent to, if one is given. The two codec
  events carry the cell size and the byte offsets of \<^verbatim>\<open>parity_bufs[0..p-1]\<close> in the
  parity buffer.
\<close>

datatype event =
    VosObjFetch u64 "daos_recx list"
  | DscObjFetch nat u64 "daos_recx list" "u32 option"
  | VosArrayRemove u64 u64 daos_recx
  | VosObjUpdate u64 "daos_recx list"
  | EcEncodeData u32 "u64 list"
  | EcEncodeDataUpdate u32 nat "u64 list"
  | RpcEcAggregate obj_ec_agg_in
  | RpcEcReplicate obj_ec_rep_in

section \<open>Stripe assembly\<close>

text \<open>\<^verbatim>\<open>agg_carry_over\<close>: the number of records of the extent that lie in the next stripe.\<close>

definition agg_carry_over :: "daos_oclass_attr \<Rightarrow> ec_agg_extent \<Rightarrow> u32 option" where
  "agg_carry_over oca agg_extent =
     (let stripe_size = obj_ec_stripe_rec_nr oca;
          idx = rx_idx (ae_recx agg_extent);
          nr = rx_nr (ae_recx agg_extent)
      in if stripe_size = 0 then None
         else
           (let start_stripe = idx div ucast stripe_size;
                end_stripe = (idx + nr - 1) div ucast stripe_size
            in if end_stripe > start_stripe then
                 (if end_stripe - start_stripe = 1
                  then Some (ucast (idx + nr - end_stripe * ucast stripe_size))
                  else None)
               else Some 0))"

text \<open>The loop of \<^verbatim>\<open>agg_clear_extents\<close>. The state is (ptail, carry\_is\_hole,
  as\_prefix\_ext, as\_extent\_cnt, the extents left on the list).\<close>

fun agg_clear_loop ::
  "daos_oclass_attr \<Rightarrow> ec_agg_extent list \<Rightarrow> u32 \<times> bool \<times> u32 \<times> u32 \<times> ec_agg_extent list
     \<Rightarrow> (u32 \<times> bool \<times> u32 \<times> u32 \<times> ec_agg_extent list) option" where
  "agg_clear_loop oca [] st = Some st"
| "agg_clear_loop oca (x # xs) (ptail, carry_is_hole, prefix_ext, cnt, kept) =
     (case agg_carry_over oca x of
        None \<Rightarrow> None
      | Some tail \<Rightarrow>
          (let hole = (if ae_hole x then True else carry_is_hole) in
           if tail \<noteq> 0 then
             (if ptail = 0 then
                agg_clear_loop oca xs
                  (tail, hole, ucast (rx_nr (ae_recx x) - ucast tail), cnt,
                   kept @ [x\<lparr>ae_recx :=
                     \<lparr>rx_idx = rx_idx (ae_recx x) + (rx_nr (ae_recx x) - ucast tail),
                      rx_nr = ucast tail\<rparr>\<rparr>])
              else None)
           else agg_clear_loop oca xs (ptail, hole, prefix_ext, cnt - 1, kept)))"

definition agg_clear_extents :: "ec_agg_entry \<Rightarrow> ec_agg_entry option" where
  "agg_clear_extents agg_entry =
     (let s = ae_cur_stripe agg_entry in
      case agg_clear_loop (ae_oca agg_entry) (as_dextents s)
             (0, False, 0, as_extent_cnt s, []) of
        None \<Rightarrow> None
      | Some (ptail, carry_is_hole, prefix_ext, cnt, kept) \<Rightarrow>
          Some (agg_entry\<lparr>ae_cur_stripe := s\<lparr>
            as_prefix_ext := prefix_ext,
            as_dextents := kept,
            as_extent_cnt := cnt,
            as_offset := 0,
            as_hi_epoch := 0,
            as_stripe_fill := ucast ptail,
            as_has_holes := (if carry_is_hole then True else False)\<rparr>\<rparr>))"

definition agg_stripenum :: "ec_agg_entry \<Rightarrow> u64 \<Rightarrow> u64 option" where
  "agg_stripenum entry ex_lo =
     (if obj_ec_stripe_rec_nr (ae_oca entry) = 0 then None
      else Some (ex_lo div ucast (obj_ec_stripe_rec_nr (ae_oca entry))))"

text \<open>\<^verbatim>\<open>agg_recx_iter_pre_cb\<close>, the callback of the parity query.\<close>

definition agg_recx_iter_pre_cb ::
  "ec_agg_entry \<Rightarrow> daos_recx \<times> u64 \<Rightarrow> ec_agg_entry option" where
  "agg_recx_iter_pre_cb agg_entry entry =
     (if rx_idx (fst entry) =
           (PARITY_INDICATOR OR
             (as_stripenum (ae_cur_stripe agg_entry) * ucast (e_len (ae_oca agg_entry))))
      then Some (agg_entry\<lparr>ae_par_extent :=
                   \<lparr>ape_recx = fst entry, ape_epoch = snd entry\<rparr>\<rparr>)
      else None)"

section \<open>Buffers and local fetch\<close>

text \<open>\<^verbatim>\<open>agg_prep_sgl\<close>. Which of the four buffers are too small is not modelled; site
  \<open>PrepSglBufs\<close> answers for all of \<^verbatim>\<open>agg_alloc_buf\<close>'s calls together.\<close>

definition agg_prep_sgl :: "env \<Rightarrow> ec_agg_entry \<Rightarrow> (int \<times> ec_agg_entry) option" where
  "agg_prep_sgl env entry =
     (if ae_sgl_nr entry = 0 \<and> ret env PrepSglIovs \<noteq> 0 then Some (der_nomem env, entry)
      else
        (let e1 = (if ae_sgl_nr entry = 0 then entry\<lparr>ae_sgl_nr := AGG_IOV_CNT\<rparr> else entry)
         in if ae_sgl_nr e1 \<noteq> AGG_IOV_CNT then None
            else if ret env PrepSglBufs \<noteq> 0 then Some (der_nomem env, e1)
            else Some (0, e1)))"

definition agg_fetch_data_stripe ::
  "env \<Rightarrow> ec_agg_entry \<Rightarrow> (int \<times> ec_agg_entry \<times> event list) option" where
  "agg_fetch_data_stripe env entry =
     (case agg_prep_sgl env entry of
        None \<Rightarrow> None
      | Some (rc, e1) \<Rightarrow>
          if rc \<noteq> 0 then Some (rc, e1, [])
          else
            (let len = e_len (ae_oca e1); k = e_k (ae_oca e1);
                 recx = \<lparr>rx_idx = as_stripenum (ae_cur_stripe e1) * ucast k * ucast len,
                         rx_nr = ucast (k * len)\<rparr>
             in Some (ret env StripeFetch, e1\<lparr>ae_sgl_nr := AGG_IOV_CNT\<rparr>,
                      [VosObjFetch (as_hi_epoch (ae_cur_stripe e1)) [recx]])))"

text \<open>\<^verbatim>\<open>cell_bytes = len * entry->ae_rsize\<close>, an \<^verbatim>\<open>unsigned int\<close>, and the byte offsets
  \<^verbatim>\<open>i * cell_bytes\<close> of \<^verbatim>\<open>parity_bufs[i]\<close>, \<open>i < p\<close>, as the three codec callers
  compute them.\<close>

definition cell_bytes_of :: "ec_agg_entry \<Rightarrow> u32" where
  "cell_bytes_of entry = ucast (ucast (e_len (ae_oca entry)) * ae_rsize entry)"

definition parity_bufs :: "ec_agg_entry \<Rightarrow> u64 list" where
  "parity_bufs entry =
     map (\<lambda>i. ucast ((of_nat i :: u32) * cell_bytes_of entry))
       [0..<unat (e_p (ae_oca entry))]"

text \<open>\<^verbatim>\<open>agg_encode_full_stripe_ult\<close>: encodes, then sets the eventual to \<open>rc = 0\<close>.\<close>

definition agg_encode_full_stripe_ult :: "ec_agg_entry \<Rightarrow> int \<times> event list" where
  "agg_encode_full_stripe_ult entry =
     (0, [EcEncodeData (cell_bytes_of entry) (parity_bufs entry)])"

definition agg_encode_full_stripe :: "env \<Rightarrow> ec_agg_entry \<Rightarrow> int \<times> event list" where
  "agg_encode_full_stripe env entry =
     (if ret env EncEvCreate \<noteq> abt_success env
      then (abterr2der env (ret env EncEvCreate), [])
      else if ret env EncUltCreate \<noteq> 0 then (ret env EncUltCreate, [])
      else
        (let (status, evs) = agg_encode_full_stripe_ult entry in
         if ret env EncEvWait \<noteq> abt_success env
         then (abterr2der env (ret env EncEvWait), evs)
         else if status \<noteq> 0 then (status, evs)
         else (0, evs)))"

text \<open>\<^verbatim>\<open>agg_encode_local_parity\<close>: the value \<^verbatim>\<open>agg_encode_full_stripe\<close> returns is not
  assigned; the function returns the \<open>rc\<close> of the fetch.\<close>

definition agg_encode_local_parity ::
  "env \<Rightarrow> ec_agg_entry \<Rightarrow> (int \<times> ec_agg_entry \<times> event list) option" where
  "agg_encode_local_parity env entry =
     (case agg_fetch_data_stripe env entry of
        None \<Rightarrow> None
      | Some (rc, e1, evs) \<Rightarrow>
          if rc \<noteq> 0 then Some (rc, e1, evs)
          else Some (rc, e1, evs @ snd (agg_encode_full_stripe env e1)))"

definition agg_data_is_newer :: "ec_agg_entry \<Rightarrow> bool" where
  "agg_data_is_newer entry =
     list_all (\<lambda>x. \<not> ae_epoch x < ape_epoch (ae_par_extent entry))
       (as_dextents (ae_cur_stripe entry))"

definition agg_stripe_is_filled :: "ec_agg_entry \<Rightarrow> bool \<Rightarrow> bool" where
  "agg_stripe_is_filled entry has_parity =
     (let is_filled = (as_stripe_fill (ae_cur_stripe entry) =
                        ucast (e_k (ae_oca entry) * e_len (ae_oca entry)))
      in if is_filled then (if \<not> has_parity \<or> agg_data_is_newer entry then True else False)
         else False)"

fun agg_carry_under_loop :: "daos_oclass_attr \<Rightarrow> ec_agg_extent list \<Rightarrow> u32 option" where
  "agg_carry_under_loop oca [] = Some 0"
| "agg_carry_under_loop oca (x # xs) =
     (case agg_carry_over oca x of
        None \<Rightarrow> None
      | Some tail \<Rightarrow>
          if tail \<noteq> 0 then Some (ucast (rx_nr (ae_recx x) - ucast tail))
          else agg_carry_under_loop oca xs)"

definition agg_get_carry_under :: "ec_agg_entry \<Rightarrow> u32 option" where
  "agg_get_carry_under entry =
     agg_carry_under_loop (ae_oca entry) (as_dextents (ae_cur_stripe entry))"

text \<open>\<^verbatim>\<open>agg_update_vos\<close>: the removal's return code is overwritten by the update's.\<close>

definition agg_update_vos :: "env \<Rightarrow> ec_agg_entry \<Rightarrow> int \<times> event list" where
  "agg_update_vos env entry =
     (let len = e_len (ae_oca entry); k = e_k (ae_oca entry);
          s = ae_cur_stripe entry;
          recx = \<lparr>rx_idx = as_stripenum s * ucast k * ucast len - ucast (as_prefix_ext s),
                  rx_nr = ucast (k * len + as_prefix_ext s - as_suffix_ext s)\<rparr>;
          precx = \<lparr>rx_idx = (as_stripenum s * ucast len) OR PARITY_INDICATOR,
                   rx_nr = ucast len\<rparr>
      in (ret env CommitUpdate,
          [VosArrayRemove 0 (as_hi_epoch s) recx, VosObjUpdate (as_hi_epoch s) [precx]]))"

definition agg_overlap :: "daos_recx \<Rightarrow> u32 \<Rightarrow> u32 \<Rightarrow> u32 \<Rightarrow> u64 \<Rightarrow> bool" where
  "agg_overlap recx cell k len stripenum =
     (let cell_start = ucast (k * len) * stripenum + ucast (len * cell) in
      if cell_start \<le> rx_idx recx \<and> rx_idx recx < cell_start + ucast len then True
      else if rx_idx recx \<le> cell_start \<and> cell_start < rx_idx recx + rx_nr recx then True
      else False)"

section \<open>Remote fetches and the codec\<close>

text \<open>The scan of the layout in \<^verbatim>\<open>agg_get_obj_handle\<close>. The state is (prevrank,
  previdx, ae\_peer\_rank, ae\_peer\_idx).\<close>

fun layout_scan ::
  "u32 \<Rightarrow> (u32 \<times> u32) list \<Rightarrow> u32 \<times> u32 \<times> u32 \<times> u32 \<Rightarrow> (u32 \<times> u32 \<times> u32 \<times> u32) option" where
  "layout_scan my [] st = Some st"
| "layout_scan my (sd # rest) (prevrank, previdx, peer_rank, peer_idx) =
     (if fst sd = my then
        (if previdx \<noteq> - 1 then layout_scan my rest (prevrank, previdx, prevrank, previdx)
         else None)
      else layout_scan my rest (fst sd, snd sd, peer_rank, peer_idx))"

definition agg_get_obj_handle :: "env \<Rightarrow> ec_agg_entry \<Rightarrow> (int \<times> ec_agg_entry) option" where
  "agg_get_obj_handle env entry =
     (let rc = (if \<not> ae_obj_hdl entry then ret env ObjOpen else 0);
          opened = (\<not> ae_obj_hdl entry \<and> rc = 0);
          e1 = (if opened then entry\<lparr>ae_obj_hdl := True\<rparr> else entry)
      in if opened then
           (case layout_scan (myrank env) (concat (layout env))
                   (- 1, - 1, ae_peer_rank e1, ae_peer_idx e1) of
              None \<Rightarrow> None
            | Some (prevrank, previdx, peer_rank, peer_idx) \<Rightarrow>
                Some (rc, e1\<lparr>ae_peer_rank := peer_rank, ae_peer_idx := peer_idx\<rparr>))
         else Some (rc, e1))"

text \<open>The extents of the cells whose bit is set, in cell order: the loop over \<open>i < k\<close>
  that \<^verbatim>\<open>agg_fetch_odata_cells\<close> and \<^verbatim>\<open>agg_fetch_local_extents\<close> share.\<close>

definition bitmap_recxs :: "ec_agg_entry \<Rightarrow> nat set \<Rightarrow> daos_recx list" where
  "bitmap_recxs entry bit_map =
     map (\<lambda>i. \<lparr>rx_idx = as_stripenum (ae_cur_stripe entry) * ucast (e_k (ae_oca entry))
                          * ucast (e_len (ae_oca entry))
                        + ucast ((of_nat i :: u32) * e_len (ae_oca entry)),
               rx_nr = ucast (e_len (ae_oca entry))\<rparr>)
       (filter (\<lambda>i. i \<in> bit_map) [0..<unat (e_k (ae_oca entry))])"

text \<open>An array of \<open>n\<close> entries that \<^verbatim>\<open>D_ALLOC_ARRAY\<close> zeroed and the loop then filled
  from the front with at most \<open>n\<close> extents; the callers stop before this when the loop
  writes more.\<close>

definition iod_recxs_of :: "nat \<Rightarrow> daos_recx list \<Rightarrow> daos_recx list" where
  "iod_recxs_of n filled = take n (filled @ replicate n \<lparr>rx_idx = 0, rx_nr = 0\<rparr>)"

text \<open>\<^verbatim>\<open>agg_fetch_odata_cells\<close>. The array \<^verbatim>\<open>recxs\<close> has \<open>cell_cnt\<close> entries and the
  loop stores one extent per set bit, so more set bits than \<open>cell_cnt\<close> is a store past
  its end. The error return after \<^verbatim>\<open>agg_get_obj_handle\<close> leaves \<^verbatim>\<open>sg_nr\<close> at 1 and
  \<^verbatim>\<open>sg_iovs\<close> advanced, as the code does.\<close>

definition agg_fetch_odata_cells ::
  "env \<Rightarrow> ec_agg_entry \<Rightarrow> nat set \<Rightarrow> u32 \<Rightarrow> bool \<Rightarrow> (int \<times> ec_agg_entry \<times> event list) option" where
  "agg_fetch_odata_cells env entry bit_map cell_cnt is_recalc =
     (if ret env OdataAllocRecxs \<noteq> 0 then Some (der_nomem env, entry, [])
      else if length (bitmap_recxs entry bit_map) > unat cell_cnt then None
      else
        (let recxs = iod_recxs_of (unat cell_cnt) (bitmap_recxs entry bit_map);
             e1 = entry\<lparr>ae_sgl_nr := 1, ae_sgl_base := ae_sgl_base entry + 1\<rparr>
         in case agg_get_obj_handle env e1 of
              None \<Rightarrow> None
            | Some (rc, e2) \<Rightarrow>
                if rc \<noteq> 0 then Some (rc, e2, [])
                else
                  (let epoch = (if is_recalc then as_hi_epoch (ae_cur_stripe e2)
                                else ape_epoch (ae_par_extent e2))
                   in Some (ret env OdataFetch,
                            e2\<lparr>ae_sgl_base := ae_sgl_base e2 - 1, ae_sgl_nr := AGG_IOV_CNT\<rparr>,
                            [DscObjFetch (ae_sgl_base e2) epoch recxs None]))))"

text \<open>\<^verbatim>\<open>agg_fetch_local_extents\<close>. The array \<^verbatim>\<open>recxs\<close> has \<open>nr\<close> entries: \<open>cell_cnt\<close>
  when \<open>is_recalc\<close> and \<open>cell_cnt + 1\<close> otherwise. The loop stores one extent per set bit,
  and \<^verbatim>\<open>D_ASSERT(j == cell_cnt)\<close> follows. The branch \<^verbatim>\<open>if (is_recalc)\<close> then stores the
  parity extent in \<^verbatim>\<open>recxs[cell_cnt]\<close>, which with \<open>is_recalc\<close> is one entry past the end
  of the array: a call with \<open>is_recalc\<close> that gets that far stops there. Without
  \<open>is_recalc\<close> the last entry of the array stays zero, and the iod names all \<open>nr\<close>
  entries.\<close>

definition agg_fetch_local_extents ::
  "env \<Rightarrow> ec_agg_entry \<Rightarrow> nat set \<Rightarrow> u32 \<Rightarrow> bool \<Rightarrow> (int \<times> ec_agg_entry \<times> event list) option" where
  "agg_fetch_local_extents env entry bit_map cell_cnt is_recalc =
     (let nr = (if is_recalc then cell_cnt else cell_cnt + 1) in
      if ret env LocalAllocRecxs \<noteq> 0 then Some (der_nomem env, entry, [])
      else if length (bitmap_recxs entry bit_map) > unat nr then None
      else if length (bitmap_recxs entry bit_map) \<noteq> unat cell_cnt then None
      else if is_recalc then None
      else
        (case agg_prep_sgl env entry of
           None \<Rightarrow> None
         | Some (rc, e1) \<Rightarrow>
             if rc \<noteq> 0 then Some (rc, e1, [])
             else if ret env LocalAllocIovs \<noteq> 0 then Some (der_nomem env, e1, [])
             else
               Some (ret env LocalFetch, e1,
                     [VosObjFetch (as_hi_epoch (ae_cur_stripe e1))
                        (iod_recxs_of (unat nr) (bitmap_recxs e1 bit_map))])))"

text \<open>\<^verbatim>\<open>agg_fetch_remote_parity\<close>. After \<^verbatim>\<open>D_ASSERT(p == 2)\<close> the loop from 1 below
  \<open>p\<close> runs once.\<close>

definition agg_fetch_remote_parity ::
  "env \<Rightarrow> ec_agg_entry \<Rightarrow> (int \<times> event list) option" where
  "agg_fetch_remote_parity env entry =
     (let len = e_len (ae_oca entry);
          pshard = ae_oid_shard entry - 1;
          recx = \<lparr>rx_idx = (as_stripenum (ae_cur_stripe entry) * ucast len) OR PARITY_INDICATOR,
                  rx_nr = ucast len\<rparr>
      in if e_p (ae_oca entry) \<noteq> 2 then None
         else if \<not> pshard \<ge> e_k (ae_oca entry) then None
         else Some (ret env RemoteParityFetch,
                    [DscObjFetch (ae_sgl_base entry + AGG_IOV_PARITY)
                       (ape_epoch (ae_par_extent entry)) [recx] (Some pshard)]))"

text \<open>The loop of \<^verbatim>\<open>agg_update_parity\<close> over \<open>i < cell_cnt\<close>. \<open>j\<close> moves to the next set
  bit at or after its position and is not advanced past it; a scan that leaves the
  bitmap without finding a set bit is a stop.\<close>

fun agg_update_parity_loop ::
  "env \<Rightarrow> ec_agg_entry \<Rightarrow> nat set \<Rightarrow> nat list \<Rightarrow> nat \<Rightarrow> event list \<Rightarrow> (int \<times> event list) option" where
  "agg_update_parity_loop env entry bit_map [] j evs = Some (0, evs)"
| "agg_update_parity_loop env entry bit_map (i # is) j evs =
     (if ret env (XorGen i) \<noteq> 0 then Some (ret env (XorGen i), evs)
      else
        (case find (\<lambda>b. b \<in> bit_map) [j..<bitmap_bits env] of
           None \<Rightarrow> None
         | Some j' \<Rightarrow>
             agg_update_parity_loop env entry bit_map is j'
               (evs @ [EcEncodeDataUpdate (cell_bytes_of entry) j' (parity_bufs entry)])))"

definition agg_update_parity ::
  "env \<Rightarrow> ec_agg_entry \<Rightarrow> nat set \<Rightarrow> u32 \<Rightarrow> (int \<times> event list) option" where
  "agg_update_parity env entry bit_map cell_cnt =
     agg_update_parity_loop env entry bit_map [0..<unat cell_cnt] 0 []"

definition agg_recalc_parity ::
  "ec_agg_entry \<Rightarrow> nat set \<Rightarrow> u32 \<Rightarrow> event list option" where
  "agg_recalc_parity entry bit_map cell_cnt =
     (let r = length (filter (\<lambda>i. i \<in> bit_map) [0..<unat (e_k (ae_oca entry))]) in
      if (of_nat r :: u32) \<noteq> cell_cnt then None
      else if \<not> e_p (ae_oca entry) > 0 then None
      else Some [EcEncodeData (cell_bytes_of entry) (parity_bufs entry)])"

text \<open>\<^verbatim>\<open>agg_process_partial_stripe_ult\<close>; the \<open>int\<close> is the status it sets.\<close>

definition agg_process_partial_stripe_ult ::
  "env \<Rightarrow> ec_agg_entry \<Rightarrow> nat set \<Rightarrow> u32 \<Rightarrow> bool \<Rightarrow> (int \<times> ec_agg_entry \<times> event list) option" where
  "agg_process_partial_stripe_ult env entry bit_map cell_cnt recalc =
     (case agg_fetch_odata_cells env entry bit_map cell_cnt recalc of
        None \<Rightarrow> None
      | Some (rc, e1, evs1) \<Rightarrow>
          if rc \<noteq> 0 then Some (rc, e1, evs1)
          else
            (case (if e_p (ae_oca e1) > 1 then agg_fetch_remote_parity env e1
                   else Some (rc, [])) of
               None \<Rightarrow> None
             | Some (rc2, evs2) \<Rightarrow>
                 if rc2 \<noteq> 0 then Some (rc2, e1, evs1 @ evs2)
                 else if recalc then
                   (case agg_recalc_parity e1 bit_map cell_cnt of
                      None \<Rightarrow> None
                    | Some evs3 \<Rightarrow> Some (rc2, e1, evs1 @ evs2 @ evs3))
                 else
                   (case agg_update_parity env e1 bit_map cell_cnt of
                      None \<Rightarrow> None
                    | Some (rc3, evs3) \<Rightarrow> Some (rc3, e1, evs1 @ evs2 @ evs3))))"

section \<open>The partial-stripe strategy\<close>

definition agg_full_cells :: "nat set \<Rightarrow> u32 \<Rightarrow> u32 \<Rightarrow> u32 \<Rightarrow> u32 \<Rightarrow> nat set \<times> u32" where
  "agg_full_cells bit_map estart elen k len =
     fold (\<lambda>i (bm, cell_cnt).
             if of_nat i * len \<ge> estart \<and> estart - of_nat i * len + elen \<ge> len
             then (insert i bm, cell_cnt + 1) else (bm, cell_cnt))
       [0..<unat k] (bit_map, 0)"

text \<open>The first loop of \<^verbatim>\<open>agg_process_partial_stripe\<close>. The state is (estart, elen,
  cell\_cnt, bit\_map).\<close>

fun agg_coalesce ::
  "u32 \<Rightarrow> u32 \<Rightarrow> ec_agg_extent list \<Rightarrow> u32 \<times> u32 \<times> u32 \<times> nat set
     \<Rightarrow> (u32 \<times> u32 \<times> u32 \<times> nat set) option" where
  "agg_coalesce k len [] st = Some st"
| "agg_coalesce k len (x # xs) (estart, elen, cell_cnt, bit_map) =
     (if ae_hole x then None
      else if ucast estart = rx_idx (ae_recx x) then
        agg_coalesce k len xs (estart, ucast (rx_nr (ae_recx x)), cell_cnt, bit_map)
      else if rx_idx (ae_recx x) > ucast elen then
        (let (bm, c) = agg_full_cells bit_map estart elen k len in
         agg_coalesce k len xs
           (ucast (rx_idx (ae_recx x)), 0 + ucast (rx_nr (ae_recx x)), cell_cnt + c, bm))
      else
        agg_coalesce k len xs (estart, elen + ucast (rx_nr (ae_recx x)), cell_cnt, bit_map))"

text \<open>The two nested loops of the else branch: over the cells \<open>i\<close> while
  \<open>cell_cnt < k\<close>, and for each over the extents until \<open>cell_cnt = k\<close>.\<close>

fun agg_overlap_extents ::
  "u32 \<Rightarrow> u32 \<Rightarrow> u64 \<Rightarrow> nat \<Rightarrow> ec_agg_extent list \<Rightarrow> nat set \<times> u32 \<Rightarrow> (nat set \<times> u32) option" where
  "agg_overlap_extents k len stripenum i [] st = Some st"
| "agg_overlap_extents k len stripenum i (x # xs) (bit_map, cell_cnt) =
     (if ae_hole x then None
      else
        (let st = (if agg_overlap (ae_recx x) (of_nat i) k len stripenum
                   then (insert i bit_map, cell_cnt + 1) else (bit_map, cell_cnt))
         in if snd st = k then Some st
            else agg_overlap_extents k len stripenum i xs st))"

fun agg_overlap_cells ::
  "u32 \<Rightarrow> u32 \<Rightarrow> u64 \<Rightarrow> ec_agg_extent list \<Rightarrow> nat list \<Rightarrow> nat set \<times> u32 \<Rightarrow> (nat set \<times> u32) option" where
  "agg_overlap_cells k len stripenum exts [] st = Some st"
| "agg_overlap_cells k len stripenum exts (i # is) (bit_map, cell_cnt) =
     (if cell_cnt < k then
        (case agg_overlap_extents k len stripenum i exts (bit_map, cell_cnt) of
           None \<Rightarrow> None
         | Some st \<Rightarrow> agg_overlap_cells k len stripenum exts is st)
      else Some (bit_map, cell_cnt))"

text \<open>The part of \<^verbatim>\<open>agg_process_partial_stripe\<close> before the local fetch: the result
  is (bit\_map, cell\_cnt, \<^verbatim>\<open>stripe_ud.asu_recalc\<close>).\<close>

definition agg_partial_choice :: "ec_agg_entry \<Rightarrow> (nat set \<times> u32 \<times> bool) option" where
  "agg_partial_choice entry =
     (let len = e_len (ae_oca entry); k = e_k (ae_oca entry);
          exts = as_dextents (ae_cur_stripe entry)
      in case agg_coalesce k len exts (as_offset (ae_cur_stripe entry), 0, 0, {}) of
           None \<Rightarrow> None
         | Some (estart, elen, cnt0, bm0) \<Rightarrow>
             (let (bm1, c) = agg_full_cells bm0 estart elen k len;
                  cell_cnt = cnt0 + c
              in if cell_cnt > k div 2 then Some (bm1, cell_cnt, True)
                 else
                   (case agg_overlap_cells k len (as_stripenum (ae_cur_stripe entry)) exts
                           [0..<unat k] (bm1 - {0..<unat k}, 0) of
                      None \<Rightarrow> None
                    | Some (bm2, cnt2) \<Rightarrow> Some (bm2, cnt2, False))))"

definition agg_process_partial_stripe ::
  "env \<Rightarrow> ec_agg_entry \<Rightarrow> (int \<times> ec_agg_entry \<times> event list) option" where
  "agg_process_partial_stripe env entry =
     (case agg_partial_choice entry of
        None \<Rightarrow> None
      | Some (bit_map, cell_cnt, recalc) \<Rightarrow>
          (case agg_fetch_local_extents env entry bit_map cell_cnt recalc of
             None \<Rightarrow> None
           | Some (rc, e1, evs1) \<Rightarrow>
               if rc \<noteq> 0 then Some (rc, e1, evs1)
               else if ret env PartEvCreate \<noteq> abt_success env
               then Some (abterr2der env (ret env PartEvCreate), e1, evs1)
               else if ret env PartUltCreate \<noteq> 0 then Some (ret env PartUltCreate, e1, evs1)
               else
                 (case agg_process_partial_stripe_ult env e1 bit_map cell_cnt recalc of
                    None \<Rightarrow> None
                  | Some (status, e2, evs2) \<Rightarrow>
                      if ret env PartEvWait \<noteq> abt_success env
                      then Some (abterr2der env (ret env PartEvWait), e2, evs1 @ evs2)
                      else if status \<noteq> 0 then Some (status, e2, evs1 @ evs2)
                      else Some (ret env PartEvWait, e2, evs1 @ evs2))))"

section \<open>Peer update and hole processing\<close>

text \<open>The request \<^verbatim>\<open>agg_peer_update_ult\<close> builds: \<^verbatim>\<open>d_iov_set(&iov, &buf[e_len],
  e_len * ae_rsize)\<close> over the parity buffer.\<close>

definition agg_peer_update_req :: "ec_agg_entry \<Rightarrow> obj_ec_agg_in" where
  "agg_peer_update_req entry =
     \<lparr>ea_oid_shard = ae_oid_shard entry - 1,
      ea_rsize = ae_rsize entry,
      ea_epoch = as_hi_epoch (ae_cur_stripe entry),
      ea_stripenum = as_stripenum (ae_cur_stripe entry),
      ea_prior_len = as_prefix_ext (ae_cur_stripe entry),
      ea_after_len = as_suffix_ext (ae_cur_stripe entry),
      ea_bulk_off = ucast (e_len (ae_oca entry)),
      ea_bulk_len = ucast (e_len (ae_oca entry)) * ae_rsize entry\<rparr>"

definition agg_peer_update_ult :: "env \<Rightarrow> ec_agg_entry \<Rightarrow> int \<times> event list" where
  "agg_peer_update_ult env entry =
     (if ret env PeerReqCreate \<noteq> 0 then (ret env PeerReqCreate, [])
      else if ret env PeerBulkCreate \<noteq> 0 then (ret env PeerBulkCreate, [])
      else if ret env PeerRpcSend \<noteq> 0
      then (ret env PeerRpcSend, [RpcEcAggregate (agg_peer_update_req entry)])
      else (ret env PeerReply, [RpcEcAggregate (agg_peer_update_req entry)]))"

definition agg_peer_update ::
  "env \<Rightarrow> ec_agg_entry \<Rightarrow> (int \<times> ec_agg_entry \<times> event list) option" where
  "agg_peer_update env entry =
     (case agg_get_obj_handle env entry of
        None \<Rightarrow> None
      | Some (rc, e1) \<Rightarrow>
          if rc \<noteq> 0 then Some (rc, e1, [])
          else if ret env PeerEvCreate \<noteq> abt_success env
          then Some (abterr2der env (ret env PeerEvCreate), e1, [])
          else if ret env PeerUltCreate \<noteq> 0 then Some (ret env PeerUltCreate, e1, [])
          else
            (let (status, evs) = agg_peer_update_ult env e1 in
             if ret env PeerEvWait \<noteq> abt_success env
             then Some (abterr2der env (ret env PeerEvWait), e1, evs)
             else if status \<noteq> 0 then Some (status, e1, evs)
             else Some (ret env PeerEvWait, e1, evs)))"

text \<open>The loop of \<^verbatim>\<open>agg_process_holes_ult\<close> over the extents; \<open>ss\<close> is the first
  index of the stripe. The state is (last\_ext\_end, the extents written to
  \<^verbatim>\<open>asu_recxs\<close> so far, ext\_tot\_len).\<close>

fun agg_holes_scan ::
  "u64 \<Rightarrow> ec_agg_extent list \<Rightarrow> u32 \<times> daos_recx list \<times> u32 \<Rightarrow> u32 \<times> daos_recx list \<times> u32" where
  "agg_holes_scan ss [] st = st"
| "agg_holes_scan ss (x # xs) (last_ext_end, recxs, ext_tot_len) =
     (let idx = rx_idx (ae_recx x); nr = rx_nr (ae_recx x);
          gap = idx - ss - ucast last_ext_end
      in agg_holes_scan ss xs
           (if idx - ss > ucast last_ext_end
            then (last_ext_end + ucast (idx + nr - ss),
                  recxs @ [\<lparr>rx_idx = ss + ucast last_ext_end, rx_nr = gap\<rparr>],
                  ext_tot_len + ucast gap)
            else (last_ext_end + ucast (idx + nr - ss), recxs, ext_tot_len)))"

definition agg_holes_recxs :: "ec_agg_entry \<Rightarrow> daos_recx list" where
  "agg_holes_recxs entry =
     (let len = e_len (ae_oca entry); k = e_k (ae_oca entry);
          ss = as_stripenum (ae_cur_stripe entry) * ucast k * ucast len;
          (last_ext_end, recxs, ext_tot_len) =
             agg_holes_scan ss (as_dextents (ae_cur_stripe entry)) (0, [], 0)
      in if last_ext_end < k * len
         then recxs @ [\<lparr>rx_idx = ss + ucast last_ext_end,
                         rx_nr = ss + ucast (k * len) - ucast (k * len - last_ext_end)\<rparr>]
         else recxs)"

text \<open>\<^verbatim>\<open>agg_process_holes_ult\<close>: the status it sets, \<^verbatim>\<open>asu_recxs\<close> with
  \<^verbatim>\<open>asu_cell_cnt\<close> as its length (empty when the allocation failed), the entry and
  the events. The array \<^verbatim>\<open>asu_recxs\<close> has \<open>as_extent_cnt + 1\<close> entries, and more
  extents than that is a store past its end.\<close>

definition agg_process_holes_ult ::
  "env \<Rightarrow> ec_agg_entry \<Rightarrow> (int \<times> daos_recx list \<times> ec_agg_entry \<times> event list) option" where
  "agg_process_holes_ult env entry =
     (if ret env HolesAllocRecxs \<noteq> 0
      then Some (der_nomem env, [], entry\<lparr>ae_sgl_nr := AGG_IOV_CNT\<rparr>, [])
      else
        (let recxs = agg_holes_recxs entry;
             fetch = DscObjFetch (ae_sgl_base entry + AGG_IOV_DATA)
                       (as_hi_epoch (ae_cur_stripe entry)) recxs None;
             req = \<lparr>er_oid_shard = ae_oid_shard entry - 1,
                    er_iod_size = ae_rsize entry,
                    er_iod_recxs = recxs,
                    er_stripenum = as_stripenum (ae_cur_stripe entry),
                    er_epoch = as_hi_epoch (ae_cur_stripe entry)\<rparr>;
             e1 = entry\<lparr>ae_sgl_nr := AGG_IOV_CNT\<rparr>
         in if length recxs > unat (as_extent_cnt (ae_cur_stripe entry) + 1) then None
            else if ret env HolesFetch \<noteq> 0 then Some (ret env HolesFetch, recxs, e1, [fetch])
            else if ret env HolesReqCreate \<noteq> 0
            then Some (ret env HolesReqCreate, recxs, e1, [fetch])
            else if ret env HolesBulkCreate \<noteq> 0
            then Some (ret env HolesBulkCreate, recxs, e1, [fetch])
            else if ret env HolesRpcSend \<noteq> 0
            then Some (ret env HolesRpcSend, recxs, e1, [fetch, RpcEcReplicate req])
            else Some (ret env HolesReply, recxs, e1, [fetch, RpcEcReplicate req])))"

text \<open>\<^verbatim>\<open>agg_process_holes\<close>. The status of the helper is assigned to \<open>rc\<close> and then
  overwritten by the return code of \<^verbatim>\<open>vos_obj_update\<close>.\<close>

definition agg_process_holes ::
  "env \<Rightarrow> ec_agg_entry \<Rightarrow> (int \<times> ec_agg_entry \<times> event list) option" where
  "agg_process_holes env entry =
     (case agg_get_obj_handle env entry of
        None \<Rightarrow> None
      | Some (rc, e1) \<Rightarrow>
          if rc \<noteq> 0 then Some (rc, e1, [])
          else
            (case agg_prep_sgl env e1 of
               None \<Rightarrow> None
             | Some (rc2, e2) \<Rightarrow>
                 if rc2 \<noteq> 0 then Some (rc2, e2, [])
                 else if ret env HolesEvCreate \<noteq> abt_success env
                 then Some (abterr2der env (ret env HolesEvCreate), e2, [])
                 else if ret env HolesUltCreate \<noteq> 0
                 then Some (ret env HolesUltCreate, e2\<lparr>ae_sgl_nr := AGG_IOV_CNT\<rparr>, [])
                 else
                   (case agg_process_holes_ult env e2 of
                      None \<Rightarrow> None
                    | Some (status, recxs, e3, evs) \<Rightarrow>
                        (let e4 = e3\<lparr>ae_sgl_nr := AGG_IOV_CNT\<rparr>;
                             upd = VosObjUpdate (as_hi_epoch (ae_cur_stripe e3)) recxs;
                             rm = VosArrayRemove 0 (as_hi_epoch (ae_cur_stripe e3))
                                    \<lparr>rx_idx = (as_stripenum (ae_cur_stripe e3)
                                                 * ucast (e_len (ae_oca e3))) OR PARITY_INDICATOR,
                                     rx_nr = ucast (e_len (ae_oca e3))\<rparr>
                         in if ret env HolesEvWait \<noteq> abt_success env
                            then Some (abterr2der env (ret env HolesEvWait), e4, evs)
                            else if ret env HolesVosUpdate \<noteq> 0
                            then Some (ret env HolesVosUpdate, e4, evs @ [upd])
                            else Some (ret env HolesVosRemove, e4, evs @ [upd, rm])))))"

section \<open>The stripe reconciler\<close>

fun vos_iterate_parity ::
  "ec_agg_entry \<Rightarrow> (daos_recx \<times> u64) list \<Rightarrow> ec_agg_entry option" where
  "vos_iterate_parity agg_entry [] = Some agg_entry"
| "vos_iterate_parity agg_entry (x # xs) =
     (case agg_recx_iter_pre_cb agg_entry x of
        None \<Rightarrow> None
      | Some e \<Rightarrow> vos_iterate_parity e xs)"

text \<open>The parity query at the head of \<^verbatim>\<open>agg_process_stripe\<close>: \<^verbatim>\<open>ape_epoch\<close> is set to
  \<^verbatim>\<open>~0ULL\<close>, the callback runs on each extent the query finds, and \<^verbatim>\<open>vos_iterate\<close>
  returns.\<close>

definition agg_query_parity :: "env \<Rightarrow> ec_agg_entry \<Rightarrow> (int \<times> ec_agg_entry) option" where
  "agg_query_parity env entry =
     (case vos_iterate_parity
             (entry\<lparr>ae_par_extent := (ae_par_extent entry)\<lparr>ape_epoch := - 1\<rparr>\<rparr>)
             (probe_entries env) of
        None \<Rightarrow> None
      | Some e \<Rightarrow> Some (ret env ProbeIterate, e))"

text \<open>\<^verbatim>\<open>agg_process_stripe\<close> from the query's return to the label \<^verbatim>\<open>out\<close>: the result
  is (rc, update\_vos, process\_holes, entry, events).\<close>

definition agg_process_stripe_body ::
  "env \<Rightarrow> int \<Rightarrow> ec_agg_entry \<Rightarrow> (int \<times> bool \<times> bool \<times> ec_agg_entry \<times> event list) option" where
  "agg_process_stripe_body env rc entry =
     (if rc \<noteq> 0 then Some (rc, True, False, entry, [])
      else if ape_epoch (ae_par_extent entry) \<ge> as_hi_epoch (ae_cur_stripe entry)
              \<and> ape_epoch (ae_par_extent entry) \<noteq> - 1
      then Some (rc, False, False, entry, [])
      else if (ape_epoch (ae_par_extent entry) = - 1 \<and> agg_stripe_is_filled entry False)
              \<or> agg_stripe_is_filled entry True
      then
        (case agg_encode_local_parity env entry of
           None \<Rightarrow> None
         | Some (rc1, e1, evs) \<Rightarrow> Some (rc1, True, False, e1, evs))
      else if ape_epoch (ae_par_extent entry) = - 1
      then Some (rc, False, False, entry, [])
      else if as_has_holes (ae_cur_stripe entry)
      then Some (rc, True, True, entry, [])
      else
        (case agg_process_partial_stripe env entry of
           None \<Rightarrow> None
         | Some (rc1, e1, evs) \<Rightarrow> Some (rc1, True, False, e1, evs)))"

text \<open>\<^verbatim>\<open>agg_process_stripe\<close> from the label \<^verbatim>\<open>out\<close> to the call that clears the
  extents.\<close>

definition agg_process_stripe_out ::
  "env \<Rightarrow> int \<Rightarrow> bool \<Rightarrow> bool \<Rightarrow> ec_agg_entry \<Rightarrow> (int \<times> ec_agg_entry \<times> event list) option" where
  "agg_process_stripe_out env rc update_vos process_holes entry =
     (if process_holes \<and> rc = 0 then agg_process_holes env entry
      else if update_vos \<and> rc = 0 then
        (case agg_get_carry_under entry of
           None \<Rightarrow> None
         | Some sfx \<Rightarrow>
             (let e1 = entry\<lparr>ae_cur_stripe := (ae_cur_stripe entry)\<lparr>as_suffix_ext := sfx\<rparr>\<rparr> in
              case (if e_p (ae_oca e1) > 1 then agg_peer_update env e1
                    else Some (rc, e1, [])) of
                None \<Rightarrow> None
              | Some (rc1, e2, evs1) \<Rightarrow>
                  if rc1 = 0
                  then Some (fst (agg_update_vos env e2), e2, evs1 @ snd (agg_update_vos env e2))
                  else Some (rc1, e2, evs1)))
      else Some (rc, entry, []))"

definition agg_process_stripe ::
  "env \<Rightarrow> ec_agg_entry \<Rightarrow> (int \<times> ec_agg_entry \<times> event list) option" where
  "agg_process_stripe env entry =
     (case agg_query_parity env entry of
        None \<Rightarrow> None
      | Some (rc, e1) \<Rightarrow>
          (case agg_process_stripe_body env rc e1 of
             None \<Rightarrow> None
           | Some (rc1, update_vos, process_holes, e2, evs1) \<Rightarrow>
               (case agg_process_stripe_out env rc1 update_vos process_holes e2 of
                  None \<Rightarrow> None
                | Some (rc2, e3, evs2) \<Rightarrow>
                    (case agg_clear_extents e3 of
                       None \<Rightarrow> None
                     | Some e4 \<Rightarrow> Some (rc2, e4, evs1 @ evs2)))))"

section \<open>The iteration callbacks\<close>

definition agg_in_stripe :: "ec_agg_entry \<Rightarrow> daos_recx \<Rightarrow> u64 option" where
  "agg_in_stripe entry recx =
     (let len = e_len (ae_oca entry); k = e_k (ae_oca entry) in
      if len * k = 0 then None
      else
        (let stripe = rx_idx recx div ucast (len * k);
             stripe_end = (stripe + 1) * ucast len * ucast k
         in if rx_idx recx + rx_nr recx > stripe_end then Some (stripe_end - rx_idx recx)
            else Some (rx_nr recx)))"

text \<open>\<^verbatim>\<open>agg_data_extent\<close> after the stripe has been rotated: the new extent is put on
  the list.\<close>

definition agg_add_extent ::
  "env \<Rightarrow> ec_agg_entry \<Rightarrow> vos_iter_entry \<Rightarrow> (int \<times> ec_agg_entry) option" where
  "agg_add_extent env agg_entry entry =
     (if ret env ExtentAlloc \<noteq> 0 then Some (der_nomem env, agg_entry)
      else
        (let extent = \<lparr>ae_recx = ie_recx entry, ae_epoch = ie_epoch entry,
                       ae_hole = ie_hole entry\<rparr>;
             s0 = ae_cur_stripe agg_entry;
             s1 = s0\<lparr>as_dextents := as_dextents s0 @ [extent]\<rparr>;
             s2 = (if as_extent_cnt s1 = 0
                   then s1\<lparr>as_offset := ucast (rx_idx (ae_recx extent)
                              - as_stripenum s1 * ucast (e_len (ae_oca agg_entry))
                                * ucast (e_k (ae_oca agg_entry)))\<rparr>
                   else s1);
             s3 = s2\<lparr>as_extent_cnt := as_extent_cnt s2 + 1\<rparr>
         in case (if ie_hole entry then Some (s3\<lparr>as_has_holes := True\<rparr>)
                  else
                    (case agg_in_stripe agg_entry (ie_recx entry) of
                       None \<Rightarrow> None
                     | Some n \<Rightarrow> Some (s3\<lparr>as_stripe_fill := as_stripe_fill s3 + n\<rparr>))) of
              None \<Rightarrow> None
            | Some s4 \<Rightarrow>
                Some (0, agg_entry\<lparr>ae_rsize := ie_rsize entry,
                        ae_cur_stripe :=
                          (if ae_epoch extent > as_hi_epoch s4
                           then s4\<lparr>as_hi_epoch := ae_epoch extent\<rparr> else s4)\<rparr>)))"

definition agg_data_extent ::
  "env \<Rightarrow> ec_agg_entry \<Rightarrow> vos_iter_entry \<Rightarrow> (int \<times> ec_agg_entry \<times> event list) option" where
  "agg_data_extent env agg_entry entry =
     (case agg_stripenum agg_entry (rx_idx (ie_recx entry)) of
        None \<Rightarrow> None
      | Some sn \<Rightarrow>
          (case (if sn \<noteq> as_stripenum (ae_cur_stripe agg_entry) then
                   (case (if as_stripenum (ae_cur_stripe agg_entry) \<noteq> - 1
                          then agg_process_stripe env agg_entry
                          else Some (0, agg_entry, [])) of
                      None \<Rightarrow> None
                    | Some (rc, e1, evs) \<Rightarrow>
                        (case agg_stripenum e1 (rx_idx (ie_recx entry)) of
                           None \<Rightarrow> None
                         | Some sn1 \<Rightarrow>
                             Some (e1\<lparr>ae_cur_stripe :=
                                       (ae_cur_stripe e1)\<lparr>as_stripenum := sn1\<rparr>\<rparr>, evs)))
                 else Some (agg_entry, [])) of
             None \<Rightarrow> None
           | Some (e2, evs) \<Rightarrow>
               (case agg_add_extent env e2 entry of
                  None \<Rightarrow> None
                | Some (rc, e3) \<Rightarrow> Some (rc, e3, evs))))"

definition agg_akey_post ::
  "env \<Rightarrow> ec_agg_entry \<Rightarrow> (int \<times> ec_agg_entry \<times> event list) option" where
  "agg_akey_post env agg_entry =
     (if as_extent_cnt (ae_cur_stripe agg_entry) \<noteq> 0 then agg_process_stripe env agg_entry
      else Some (0, agg_entry, []))"

text \<open>\<^verbatim>\<open>agg_ev\<close> and the \<^verbatim>\<open>VOS_ITER_RECX\<close> case of \<^verbatim>\<open>agg_iterate_pre_cb\<close>, which
  returns what \<^verbatim>\<open>agg_ev\<close> returns.\<close>

definition agg_ev ::
  "env \<Rightarrow> ec_agg_entry \<Rightarrow> vos_iter_entry \<Rightarrow> (int \<times> ec_agg_entry \<times> event list) option" where
  "agg_ev env agg_entry entry =
     (if rx_idx (ie_recx entry) AND PARITY_INDICATOR \<noteq> 0 then None
      else agg_data_extent env agg_entry entry)"

text \<open>A run of the RECX level of the iteration: the extents are handed to
  \<^verbatim>\<open>agg_data_extent\<close> in order, and a nonzero return ends the run, the callback's
  return value being the iterator's.\<close>

fun agg_data_extents ::
  "env \<Rightarrow> ec_agg_entry \<Rightarrow> vos_iter_entry list \<Rightarrow> (int \<times> ec_agg_entry \<times> event list) option" where
  "agg_data_extents env agg_entry [] = Some (0, agg_entry, [])"
| "agg_data_extents env agg_entry (x # xs) =
     (case agg_data_extent env agg_entry x of
        None \<Rightarrow> None
      | Some (rc, e1, evs) \<Rightarrow>
          if rc \<noteq> 0 then Some (rc, e1, evs)
          else
            (case agg_data_extents env e1 xs of
               None \<Rightarrow> None
             | Some (rc2, e2, evs2) \<Rightarrow> Some (rc2, e2, evs @ evs2)))"

section \<open>Extents and stripe boundaries, in record counts\<close>

text \<open>
  For a stripe of \<open>ss\<close> records and an extent that starts in it: whether the extent's
  last record lies in a later stripe, how many of its records lie past the end of the
  stripe it starts in, and how many lie in that stripe when it crosses the end.
  \<open>extent_ok\<close> holds of an extent that is not empty, whose end does not wrap around
  \<open>2 ^ 64\<close>, and that reaches at most into the next stripe (the \<^verbatim>\<open>D_ASSERT\<close> of
  \<^verbatim>\<open>agg_carry_over\<close>).
\<close>

definition crosses_stripe_end :: "nat \<Rightarrow> ec_agg_extent \<Rightarrow> bool" where
  "crosses_stripe_end ss x =
     ((unat (rx_idx (ae_recx x)) + unat (rx_nr (ae_recx x)) - 1) div ss
        > unat (rx_idx (ae_recx x)) div ss)"

definition recs_in_next_stripe :: "nat \<Rightarrow> ec_agg_extent \<Rightarrow> nat" where
  "recs_in_next_stripe ss x =
     unat (rx_idx (ae_recx x)) + unat (rx_nr (ae_recx x))
       - (unat (rx_idx (ae_recx x)) div ss + 1) * ss"

definition recs_in_own_stripe :: "nat \<Rightarrow> ec_agg_extent \<Rightarrow> nat" where
  "recs_in_own_stripe ss x =
     (unat (rx_idx (ae_recx x)) div ss + 1) * ss - unat (rx_idx (ae_recx x))"

definition extent_ok :: "nat \<Rightarrow> ec_agg_extent \<Rightarrow> bool" where
  "extent_ok ss x =
     (0 < unat (rx_nr (ae_recx x))
      \<and> unat (rx_idx (ae_recx x)) + unat (rx_nr (ae_recx x)) < 2 ^ 64
      \<and> (unat (rx_idx (ae_recx x)) + unat (rx_nr (ae_recx x)) - 1) div ss
          \<le> unat (rx_idx (ae_recx x)) div ss + 1)"

section \<open>The strategy choice in the spec's words\<close>

text \<open>
  Section 4.4 of the spec, decision 5, written from its words for comparison with
  \<open>agg_partial_choice\<close>: a cell is fully covered when each of its \<open>len\<close> records lies in
  a buffered replica extent; a cell is overlapped when one of its records does. With
  more than \<open>k div 2\<close> fully covered cells the bitmap is the set of those cells and the
  strategy is recalc (\<open>True\<close>); otherwise the bitmap is the set of overlapped cells and
  the strategy is update (\<open>False\<close>).
\<close>

definition spec_cell_covered :: "ec_agg_entry \<Rightarrow> nat \<Rightarrow> bool" where
  "spec_cell_covered entry i =
     (let len = unat (e_len (ae_oca entry));
          first = unat (as_stripenum (ae_cur_stripe entry)) * unat (e_k (ae_oca entry)) * len
                    + i * len
      in list_all
           (\<lambda>r. list_ex
                   (\<lambda>x. \<not> ae_hole x \<and> unat (rx_idx (ae_recx x)) \<le> r
                        \<and> r < unat (rx_idx (ae_recx x)) + unat (rx_nr (ae_recx x)))
                   (as_dextents (ae_cur_stripe entry)))
           [first..<first + len])"

definition spec_cell_overlapped :: "ec_agg_entry \<Rightarrow> nat \<Rightarrow> bool" where
  "spec_cell_overlapped entry i =
     (let len = unat (e_len (ae_oca entry));
          first = unat (as_stripenum (ae_cur_stripe entry)) * unat (e_k (ae_oca entry)) * len
                    + i * len
      in list_ex
           (\<lambda>r. list_ex
                   (\<lambda>x. unat (rx_idx (ae_recx x)) \<le> r
                        \<and> r < unat (rx_idx (ae_recx x)) + unat (rx_nr (ae_recx x)))
                   (as_dextents (ae_cur_stripe entry)))
           [first..<first + len])"

definition spec_partial_choice :: "ec_agg_entry \<Rightarrow> nat set \<times> bool" where
  "spec_partial_choice entry =
     (let cells = [0..<unat (e_k (ae_oca entry))];
          full_cells = filter (spec_cell_covered entry) cells
      in if length full_cells > unat (e_k (ae_oca entry)) div 2 then (set full_cells, True)
         else (set (filter (spec_cell_overlapped entry) cells), False))"

section \<open>Example inputs\<close>

text \<open>The object class of the spec's scenarios (\<open>k = 4\<close>, \<open>len = 8\<close>) with one and
  with two parity cells.\<close>

definition oca_4_1_8 :: daos_oclass_attr where
  "oca_4_1_8 = \<lparr>e_k = 4, e_p = 1, e_len = 8\<rparr>"

definition oca_4_2_8 :: daos_oclass_attr where
  "oca_4_2_8 = \<lparr>e_k = 4, e_p = 2, e_len = 8\<rparr>"

text \<open>An environment in which every call succeeds and the parity query finds nothing.
  The target has rank 1 and the layout lists the peer (rank 0, target 3) before it.\<close>

definition env_ok :: env where
  "env_ok = \<lparr>ret = (\<lambda>s. 0), abt_success = 0, abterr2der = (\<lambda>x. x - 1000),
             der_nomem = - 1009, probe_entries = [], myrank = 1,
             layout = [[(0, 3)], [(1, 4)]], bitmap_bits = 64\<rparr>"

text \<open>The parity extent of stripe 0 for \<open>len = 8\<close>, at a given epoch.\<close>

definition parity_at :: "u64 \<Rightarrow> daos_recx \<times> u64" where
  "parity_at ep = (\<lparr>rx_idx = PARITY_INDICATOR, rx_nr = 8\<rparr>, ep)"

text \<open>An entry as \<^verbatim>\<open>agg_reset_entry\<close> leaves it (on the leader shard \<open>k + p - 1\<close>), with a
  given object class, record size and open stripe.\<close>

definition entry_of :: "daos_oclass_attr \<Rightarrow> u64 \<Rightarrow> ec_agg_stripe \<Rightarrow> ec_agg_entry" where
  "entry_of oca rsize s =
     \<lparr>ae_oid_shard = e_k oca + e_p oca - 1, ae_oca = oca, ae_sgl_nr = 0, ae_sgl_base = 0,
      ae_rsize = rsize, ae_cur_stripe = s,
      ae_par_extent = \<lparr>ape_recx = \<lparr>rx_idx = 0, rx_nr = 0\<rparr>, ape_epoch = 0\<rparr>,
      ae_obj_hdl = False, ae_peer_rank = 0, ae_peer_idx = 0\<rparr>"

text \<open>Stripe 0 as the extents given leave it when \<^verbatim>\<open>agg_data_extent\<close> has seen them.\<close>

definition stripe_full :: ec_agg_stripe where
  "stripe_full =
     \<lparr>as_stripenum = 0, as_hi_epoch = 5,
      as_dextents = [\<lparr>ae_recx = \<lparr>rx_idx = 0, rx_nr = 32\<rparr>, ae_epoch = 5, ae_hole = False\<rparr>],
      as_stripe_fill = 32, as_extent_cnt = 1, as_offset = 0, as_prefix_ext = 0,
      as_suffix_ext = 0, as_has_holes = False\<rparr>"

definition stripe_head2 :: ec_agg_stripe where
  "stripe_head2 =
     \<lparr>as_stripenum = 0, as_hi_epoch = 12,
      as_dextents = [\<lparr>ae_recx = \<lparr>rx_idx = 0, rx_nr = 2\<rparr>, ae_epoch = 12, ae_hole = False\<rparr>],
      as_stripe_fill = 2, as_extent_cnt = 1, as_offset = 0, as_prefix_ext = 0,
      as_suffix_ext = 0, as_has_holes = False\<rparr>"

definition stripe_cross :: "u64 \<Rightarrow> ec_agg_stripe" where
  "stripe_cross nr =
     \<lparr>as_stripenum = 0, as_hi_epoch = 12,
      as_dextents = [\<lparr>ae_recx = \<lparr>rx_idx = 30, rx_nr = nr\<rparr>, ae_epoch = 12, ae_hole = False\<rparr>],
      as_stripe_fill = 2, as_extent_cnt = 1, as_offset = 30, as_prefix_ext = 0,
      as_suffix_ext = 0, as_has_holes = False\<rparr>"

definition stripe_hole_cross :: ec_agg_stripe where
  "stripe_hole_cross =
     \<lparr>as_stripenum = 0, as_hi_epoch = 12,
      as_dextents = [\<lparr>ae_recx = \<lparr>rx_idx = 0, rx_nr = 4\<rparr>, ae_epoch = 12, ae_hole = True\<rparr>,
                     \<lparr>ae_recx = \<lparr>rx_idx = 30, rx_nr = 4\<rparr>, ae_epoch = 11, ae_hole = False\<rparr>],
      as_stripe_fill = 2, as_extent_cnt = 2, as_offset = 0, as_prefix_ext = 0,
      as_suffix_ext = 0, as_has_holes = True\<rparr>"

text \<open>Further stripes: a replica extent in the last cell only; a full stripe whose
  last extent carries over; stripe 1 of the same array with a carry-in of 2 records
  before it and an extent that keeps 3 records in the stripe and carries over; an empty
  stripe as \<^verbatim>\<open>agg_reset_entry\<close> leaves it; \<open>n\<close> one-record extents at alternating
  epochs; an entry whose parity extent has been found at a given epoch.\<close>

definition stripe_tail2 :: ec_agg_stripe where
  "stripe_tail2 =
     \<lparr>as_stripenum = 0, as_hi_epoch = 12,
      as_dextents = [\<lparr>ae_recx = \<lparr>rx_idx = 24, rx_nr = 2\<rparr>, ae_epoch = 12, ae_hole = False\<rparr>],
      as_stripe_fill = 2, as_extent_cnt = 1, as_offset = 24, as_prefix_ext = 0,
      as_suffix_ext = 0, as_has_holes = False\<rparr>"

definition oca_4_1_512 :: daos_oclass_attr where
  "oca_4_1_512 = \<lparr>e_k = 4, e_p = 1, e_len = 512\<rparr>"

definition stripe_empty :: ec_agg_stripe where
  "stripe_empty =
     \<lparr>as_stripenum = 0, as_hi_epoch = 0, as_dextents = [], as_stripe_fill = 0,
      as_extent_cnt = 0, as_offset = 0, as_prefix_ext = 0, as_suffix_ext = 0,
      as_has_holes = False\<rparr>"

definition unit_extents :: "nat \<Rightarrow> vos_iter_entry list" where
  "unit_extents n =
     map (\<lambda>i. \<lparr>ie_recx = \<lparr>rx_idx = of_nat i, rx_nr = 1\<rparr>,
               ie_epoch = (if even i then 1 else 2), ie_rsize = 1, ie_hole = False\<rparr>)
       [0..<n]"

definition extent_cnt_of :: "(int \<times> ec_agg_entry \<times> event list) option \<Rightarrow> nat option" where
  "extent_cnt_of r = map_option (\<lambda>t. unat (as_extent_cnt (ae_cur_stripe (fst (snd t))))) r"

definition stripe_full_cross :: ec_agg_stripe where
  "stripe_full_cross =
     \<lparr>as_stripenum = 0, as_hi_epoch = 12,
      as_dextents = [\<lparr>ae_recx = \<lparr>rx_idx = 0, rx_nr = 30\<rparr>, ae_epoch = 12, ae_hole = False\<rparr>,
                     \<lparr>ae_recx = \<lparr>rx_idx = 30, rx_nr = 5\<rparr>, ae_epoch = 12, ae_hole = False\<rparr>],
      as_stripe_fill = 32, as_extent_cnt = 2, as_offset = 0, as_prefix_ext = 0,
      as_suffix_ext = 0, as_has_holes = False\<rparr>"


definition stripe_second :: ec_agg_stripe where
  "stripe_second =
     \<lparr>as_stripenum = 1, as_hi_epoch = 12,
      as_dextents = [\<lparr>ae_recx = \<lparr>rx_idx = 32, rx_nr = 3\<rparr>, ae_epoch = 12, ae_hole = False\<rparr>,
                     \<lparr>ae_recx = \<lparr>rx_idx = 35, rx_nr = 26\<rparr>, ae_epoch = 11, ae_hole = False\<rparr>,
                     \<lparr>ae_recx = \<lparr>rx_idx = 61, rx_nr = 5\<rparr>, ae_epoch = 12, ae_hole = False\<rparr>],
      as_stripe_fill = 32, as_extent_cnt = 3, as_offset = 0, as_prefix_ext = 2,
      as_suffix_ext = 3, as_has_holes = False\<rparr>"

definition found_parity :: "u64 \<Rightarrow> ec_agg_entry \<Rightarrow> ec_agg_entry" where
  "found_parity ep entry =
     entry\<lparr>ae_par_extent := \<lparr>ape_recx = fst (parity_at ep), ape_epoch = ep\<rparr>\<rparr>"

section \<open>Evaluation rules\<close>

lemmas ex_defs =
  oca_4_1_8_def oca_4_2_8_def env_ok_def parity_at_def entry_of_def stripe_full_def
  stripe_head2_def stripe_cross_def stripe_hole_cross_def stripe_tail2_def
  stripe_full_cross_def stripe_second_def stripe_empty_def oca_4_1_512_def found_parity_def

lemmas iov_defs =
  AGG_IOV_DATA_def AGG_IOV_ODATA_def AGG_IOV_PARITY_def AGG_IOV_DIFF_def AGG_IOV_CNT_def

lemmas stripe_defs =
  agg_process_stripe_def agg_query_parity_def agg_process_stripe_body_def
  agg_process_stripe_out_def agg_recx_iter_pre_cb_def agg_stripe_is_filled_def
  agg_data_is_newer_def agg_encode_local_parity_def agg_fetch_data_stripe_def
  agg_prep_sgl_def agg_encode_full_stripe_def agg_encode_full_stripe_ult_def
  cell_bytes_of_def parity_bufs_def agg_get_carry_under_def agg_carry_over_def
  obj_ec_stripe_rec_nr_def agg_update_vos_def agg_clear_extents_def

section \<open>Words as numbers\<close>

lemma unat_ucast_up: "unat (ucast (w :: u32) :: u64) = unat w"
  by (simp add: unsigned_ucast_eq take_bit_nat_eq_self_iff order_less_trans [OF unsigned_less])

lemma unat_ucast_down: "unat (ucast (w :: u64) :: u32) = unat w mod 2 ^ 32"
  by (simp add: unsigned_ucast_eq take_bit_eq_mod)

lemma unat_u32_lt: "unat (w :: u32) < 2 ^ 32"
  using unsigned_less [of w] by simp

lemma ucast_up_down: "(ucast (ucast (w :: u32) :: u64) :: u32) = w"
  using unat_u32_lt [of w]
  by (simp add: word_unat_eq_iff unat_ucast_down unat_ucast_up)

section \<open>What each step leaves unchanged\<close>

lemma agg_prep_sgl_frame:
  "agg_prep_sgl env e = Some (rc, e') \<Longrightarrow>
     ae_cur_stripe e' = ae_cur_stripe e \<and> ae_oca e' = ae_oca e
     \<and> ae_par_extent e' = ae_par_extent e \<and> ae_sgl_base e' = ae_sgl_base e"
  by (auto simp: agg_prep_sgl_def Let_def split: if_splits)

lemma agg_get_obj_handle_frame:
  "agg_get_obj_handle env e = Some (rc, e') \<Longrightarrow>
     ae_cur_stripe e' = ae_cur_stripe e \<and> ae_oca e' = ae_oca e
     \<and> ae_par_extent e' = ae_par_extent e \<and> ae_sgl_base e' = ae_sgl_base e"
  by (auto simp: agg_get_obj_handle_def Let_def split: if_splits option.splits)

lemma agg_fetch_data_stripe_frame:
  "agg_fetch_data_stripe env e = Some (rc, e', evs) \<Longrightarrow>
     ae_cur_stripe e' = ae_cur_stripe e \<and> ae_oca e' = ae_oca e"
  by (auto simp: agg_fetch_data_stripe_def Let_def split: if_splits option.splits
           dest!: agg_prep_sgl_frame)

lemma agg_encode_local_parity_frame:
  "agg_encode_local_parity env e = Some (rc, e', evs) \<Longrightarrow>
     ae_cur_stripe e' = ae_cur_stripe e \<and> ae_oca e' = ae_oca e"
  by (auto simp: agg_encode_local_parity_def split: if_splits option.splits
           dest!: agg_fetch_data_stripe_frame)

lemma agg_fetch_odata_cells_frame:
  "agg_fetch_odata_cells env e bm cnt r = Some (rc, e', evs) \<Longrightarrow>
     ae_cur_stripe e' = ae_cur_stripe e \<and> ae_oca e' = ae_oca e
     \<and> ae_par_extent e' = ae_par_extent e"
  by (auto simp: agg_fetch_odata_cells_def Let_def split: if_splits option.splits
           dest!: agg_get_obj_handle_frame)

lemma agg_fetch_local_extents_frame:
  "agg_fetch_local_extents env e bm cnt r = Some (rc, e', evs) \<Longrightarrow>
     ae_cur_stripe e' = ae_cur_stripe e \<and> ae_oca e' = ae_oca e
     \<and> ae_par_extent e' = ae_par_extent e \<and> ae_sgl_base e' = ae_sgl_base e"
  by (auto simp: agg_fetch_local_extents_def Let_def split: if_splits option.splits
           dest!: agg_prep_sgl_frame)

lemma agg_process_partial_stripe_ult_frame:
  "agg_process_partial_stripe_ult env e bm cnt r = Some (rc, e', evs) \<Longrightarrow>
     ae_cur_stripe e' = ae_cur_stripe e \<and> ae_oca e' = ae_oca e"
  by (auto simp: agg_process_partial_stripe_ult_def split: if_splits option.splits
           dest!: agg_fetch_odata_cells_frame)

lemma agg_process_partial_stripe_frame:
  "agg_process_partial_stripe env e = Some (rc, e', evs) \<Longrightarrow>
     ae_cur_stripe e' = ae_cur_stripe e \<and> ae_oca e' = ae_oca e"
  by (auto simp: agg_process_partial_stripe_def split: if_splits option.splits
           dest!: agg_fetch_local_extents_frame agg_process_partial_stripe_ult_frame)

lemma agg_peer_update_frame:
  "agg_peer_update env e = Some (rc, e', evs) \<Longrightarrow>
     ae_cur_stripe e' = ae_cur_stripe e \<and> ae_oca e' = ae_oca e"
  by (auto simp: agg_peer_update_def Let_def split: if_splits option.splits prod.splits
           dest!: agg_get_obj_handle_frame)

lemma agg_process_holes_ult_frame:
  "agg_process_holes_ult env e = Some (rc, recxs, e', evs) \<Longrightarrow>
     ae_cur_stripe e' = ae_cur_stripe e \<and> ae_oca e' = ae_oca e"
  by (auto simp: agg_process_holes_ult_def Let_def split: if_splits)

lemma agg_process_holes_frame:
  "agg_process_holes env e = Some (rc, e', evs) \<Longrightarrow>
     ae_cur_stripe e' = ae_cur_stripe e \<and> ae_oca e' = ae_oca e"
  by (auto simp: agg_process_holes_def Let_def split: if_splits option.splits prod.splits
           dest!: agg_get_obj_handle_frame agg_prep_sgl_frame agg_process_holes_ult_frame)

lemma agg_recx_iter_pre_cb_frame:
  "agg_recx_iter_pre_cb e x = Some e' \<Longrightarrow>
     ae_cur_stripe e' = ae_cur_stripe e \<and> ae_oca e' = ae_oca e"
  by (auto simp: agg_recx_iter_pre_cb_def split: if_splits)

lemma vos_iterate_parity_frame:
  "vos_iterate_parity e xs = Some e' \<Longrightarrow>
     ae_cur_stripe e' = ae_cur_stripe e \<and> ae_oca e' = ae_oca e"
  by (induction xs arbitrary: e) (auto split: option.splits dest!: agg_recx_iter_pre_cb_frame)

lemma agg_query_parity_frame:
  "agg_query_parity env e = Some (rc, e') \<Longrightarrow>
     ae_cur_stripe e' = ae_cur_stripe e \<and> ae_oca e' = ae_oca e"
  by (auto simp: agg_query_parity_def split: option.splits dest!: vos_iterate_parity_frame)

lemma agg_process_stripe_body_frame:
  "agg_process_stripe_body env rc e = Some (rc', u, h, e', evs) \<Longrightarrow>
     ae_cur_stripe e' = ae_cur_stripe e \<and> ae_oca e' = ae_oca e"
  by (auto simp: agg_process_stripe_body_def split: if_splits option.splits
           dest!: agg_encode_local_parity_frame agg_process_partial_stripe_frame)

lemma agg_process_stripe_out_frame:
  "agg_process_stripe_out env rc u h e = Some (rc', e', evs) \<Longrightarrow>
     as_dextents (ae_cur_stripe e') = as_dextents (ae_cur_stripe e) \<and> ae_oca e' = ae_oca e"
  by (auto simp: agg_process_stripe_out_def Let_def split: if_splits option.splits
           dest!: agg_process_holes_frame agg_peer_update_frame)

section \<open>The parity query\<close>

lemma vos_iterate_parity_last:
  "list_all (\<lambda>x. rx_idx (fst x) =
      (PARITY_INDICATOR OR (as_stripenum (ae_cur_stripe e) * ucast (e_len (ae_oca e))))) xs
   \<Longrightarrow> vos_iterate_parity e xs =
       Some (if xs = [] then e
             else e\<lparr>ae_par_extent := \<lparr>ape_recx = fst (last xs), ape_epoch = snd (last xs)\<rparr>\<rparr>)"
proof (induction xs arbitrary: e)
  case Nil
  then show ?case by simp
next
  case (Cons x xs)
  let ?e1 = "e\<lparr>ae_par_extent := \<lparr>ape_recx = fst x, ape_epoch = snd x\<rparr>\<rparr>"
  from Cons.prems have cb: "agg_recx_iter_pre_cb e x = Some ?e1"
    by (simp add: agg_recx_iter_pre_cb_def)
  from Cons.prems have "list_all (\<lambda>x. rx_idx (fst x) =
      (PARITY_INDICATOR OR (as_stripenum (ae_cur_stripe ?e1) * ucast (e_len (ae_oca ?e1))))) xs"
    by simp
  from Cons.IH [OF this] cb show ?case by simp
qed

section \<open>C1: a parity extent at or above the data's highest epoch\<close>

text \<open>
  C1, as amended. Let the parity query of \<^verbatim>\<open>agg_process_stripe\<close> return 0 after its
  callback has seen at least one parity extent of the stripe, the last of them at an
  epoch that is at least the stripe's \<open>as_hi_epoch\<close> and is not \<^verbatim>\<open>~0ULL\<close>. Then the
  function records that extent in \<open>ae_par_extent\<close>, clears the extents, returns 0 and
  makes no call to the store, to the codec or to a peer: the event list is empty. (If
  clearing the extents stops on an assertion, so does the function.)
\<close>

theorem parity_supersedes_is_noop:
  assumes rc: "ret env ProbeIterate = 0"
    and ne: "probe_entries env \<noteq> []"
    and idx: "list_all (\<lambda>x. rx_idx (fst x) =
                (PARITY_INDICATOR OR
                  (as_stripenum (ae_cur_stripe entry) * ucast (e_len (ae_oca entry)))))
              (probe_entries env)"
    and ge: "snd (last (probe_entries env)) \<ge> as_hi_epoch (ae_cur_stripe entry)"
    and sentinel: "snd (last (probe_entries env)) \<noteq> - 1"
  shows "agg_process_stripe env entry =
           map_option (\<lambda>e. (0, e, []))
             (agg_clear_extents
                (entry\<lparr>ae_par_extent := \<lparr>ape_recx = fst (last (probe_entries env)),
                                         ape_epoch = snd (last (probe_entries env))\<rparr>\<rparr>))"
proof -
  let ?e0 = "entry\<lparr>ae_par_extent := (ae_par_extent entry)\<lparr>ape_epoch := - 1\<rparr>\<rparr>"
  let ?e1 = "entry\<lparr>ae_par_extent := \<lparr>ape_recx = fst (last (probe_entries env)),
                                       ape_epoch = snd (last (probe_entries env))\<rparr>\<rparr>"
  from idx have "list_all (\<lambda>x. rx_idx (fst x) =
      (PARITY_INDICATOR OR (as_stripenum (ae_cur_stripe ?e0) * ucast (e_len (ae_oca ?e0)))))
      (probe_entries env)"
    by simp
  from vos_iterate_parity_last [OF this] ne
  have q: "agg_query_parity env entry = Some (0, ?e1)"
    by (simp add: agg_query_parity_def rc)
  have b: "agg_process_stripe_body env 0 ?e1 = Some (0, False, False, ?e1, [])"
    using ge sentinel by (simp add: agg_process_stripe_body_def)
  have out: "agg_process_stripe_out env 0 False False ?e1 = Some (0, ?e1, [])"
    by (simp add: agg_process_stripe_out_def)
  show ?thesis
    by (simp add: agg_process_stripe_def q b out split: option.splits)
qed

text \<open>The full stripe of data at epoch 5 with a parity extent at epoch 7: nothing is
  done, and the stripe is cleared.\<close>

theorem parity_supersedes_is_noop_witness:
  "ret (env_ok\<lparr>probe_entries := [parity_at 7]\<rparr>) ProbeIterate = 0
   \<and> probe_entries (env_ok\<lparr>probe_entries := [parity_at 7]\<rparr>) = [parity_at 7]
   \<and> rx_idx (fst (parity_at 7)) =
       (PARITY_INDICATOR OR
          (as_stripenum (ae_cur_stripe (entry_of oca_4_1_8 1 stripe_full))
             * ucast (e_len (ae_oca (entry_of oca_4_1_8 1 stripe_full)))))
   \<and> as_hi_epoch (ae_cur_stripe (entry_of oca_4_1_8 1 stripe_full)) \<le> snd (parity_at 7)
   \<and> snd (parity_at 7) \<noteq> - 1
   \<and> agg_process_stripe (env_ok\<lparr>probe_entries := [parity_at 7]\<rparr>)
       (entry_of oca_4_1_8 1 stripe_full) =
     Some (0,
           (entry_of oca_4_1_8 1
              (stripe_full\<lparr>as_hi_epoch := 0, as_dextents := [], as_stripe_fill := 0,
                            as_extent_cnt := 0\<rparr>))
             \<lparr>ae_par_extent := \<lparr>ape_recx = fst (parity_at 7), ape_epoch = 7\<rparr>\<rparr>,
           [])"
  using parity_supersedes_is_noop
          [of "env_ok\<lparr>probe_entries := [parity_at 7]\<rparr>" "entry_of oca_4_1_8 1 stripe_full"]
  by (simp add: ex_defs agg_clear_extents_def agg_carry_over_def obj_ec_stripe_rec_nr_def)

text \<open>
  C1 as stated fails when the parity extent found has the epoch \<^verbatim>\<open>~0ULL\<close>, which the
  code reserves for "no parity": with the full stripe of data at epoch 5, the query
  returns 0 and hands the callback a parity extent whose epoch is above 5, and
  \<^verbatim>\<open>agg_process_stripe\<close> fetches the stripe, encodes, removes the data range and writes
  the parity.
\<close>

theorem parity_at_sentinel_epoch_commits:
  "ret (env_ok\<lparr>probe_entries := [parity_at (- 1)]\<rparr>) ProbeIterate = 0
   \<and> as_hi_epoch (ae_cur_stripe (entry_of oca_4_1_8 1 stripe_full)) \<le> snd (parity_at (- 1))
   \<and> agg_process_stripe (env_ok\<lparr>probe_entries := [parity_at (- 1)]\<rparr>)
       (entry_of oca_4_1_8 1 stripe_full) =
     Some (0,
           (entry_of oca_4_1_8 1
              (stripe_full\<lparr>as_hi_epoch := 0, as_dextents := [], as_stripe_fill := 0,
                            as_extent_cnt := 0\<rparr>))
             \<lparr>ae_sgl_nr := 4,
              ae_par_extent := \<lparr>ape_recx = fst (parity_at (- 1)), ape_epoch = - 1\<rparr>\<rparr>,
           [VosObjFetch 5 [\<lparr>rx_idx = 0, rx_nr = 32\<rparr>], EcEncodeData 8 [0],
            VosArrayRemove 0 5 \<lparr>rx_idx = 0, rx_nr = 32\<rparr>,
            VosObjUpdate 5 [\<lparr>rx_idx = PARITY_INDICATOR, rx_nr = 8\<rparr>]])"
  by (simp add: ex_defs iov_defs stripe_defs)

section \<open>C2: the ranges of the commit\<close>

text \<open>
  C2. \<^verbatim>\<open>agg_update_vos\<close> first removes, over the epochs from 0 to \<open>as_hi_epoch\<close>, the
  data range whose first index is \<open>stripenum * k * len - prefix_ext\<close> and whose end (the
  first index plus the count) is \<open>stripenum * k * len + k * len - suffix_ext\<close>, and then
  writes \<open>len\<close> records at index \<open>(stripenum * len) OR PARITY_INDICATOR\<close> at epoch
  \<open>as_hi_epoch\<close>. The code computes the count in 32 bits; the two assumptions say that
  this computation does not wrap around, and the two bounds are then the claim's in the
  code's 64-bit index arithmetic. Where the 64-bit arithmetic does not wrap around
  either, they are the claim's as numbers.
\<close>

theorem commit_removes_exact_range:
  assumes nr32: "unat (e_k (ae_oca entry)) * unat (e_len (ae_oca entry))
                + unat (as_prefix_ext (ae_cur_stripe entry)) < 2 ^ 32"
    and sfx: "unat (as_suffix_ext (ae_cur_stripe entry))
                \<le> unat (e_k (ae_oca entry)) * unat (e_len (ae_oca entry))
                    + unat (as_prefix_ext (ae_cur_stripe entry))"
  shows "\<exists>recx. agg_update_vos env entry =
           (ret env CommitUpdate,
            [VosArrayRemove 0 (as_hi_epoch (ae_cur_stripe entry)) recx,
             VosObjUpdate (as_hi_epoch (ae_cur_stripe entry))
               [\<lparr>rx_idx = (as_stripenum (ae_cur_stripe entry) * ucast (e_len (ae_oca entry)))
                            OR PARITY_INDICATOR,
                 rx_nr = ucast (e_len (ae_oca entry))\<rparr>]])
         \<and> rx_idx recx =
             as_stripenum (ae_cur_stripe entry) * ucast (e_k (ae_oca entry))
               * ucast (e_len (ae_oca entry))
             - ucast (as_prefix_ext (ae_cur_stripe entry))
         \<and> rx_idx recx + rx_nr recx =
             as_stripenum (ae_cur_stripe entry) * ucast (e_k (ae_oca entry))
               * ucast (e_len (ae_oca entry))
             + ucast (e_k (ae_oca entry)) * ucast (e_len (ae_oca entry))
             - ucast (as_suffix_ext (ae_cur_stripe entry))
         \<and> (unat (as_prefix_ext (ae_cur_stripe entry))
                  \<le> unat (as_stripenum (ae_cur_stripe entry)) * unat (e_k (ae_oca entry))
                      * unat (e_len (ae_oca entry))
              \<and> unat (as_stripenum (ae_cur_stripe entry)) * unat (e_k (ae_oca entry))
                  * unat (e_len (ae_oca entry))
                + unat (e_k (ae_oca entry)) * unat (e_len (ae_oca entry)) < 2 ^ 64
              \<longrightarrow>
                unat (rx_idx recx) =
                  unat (as_stripenum (ae_cur_stripe entry)) * unat (e_k (ae_oca entry))
                    * unat (e_len (ae_oca entry))
                  - unat (as_prefix_ext (ae_cur_stripe entry))
                \<and> unat (rx_idx recx) + unat (rx_nr recx) =
                  unat (as_stripenum (ae_cur_stripe entry)) * unat (e_k (ae_oca entry))
                    * unat (e_len (ae_oca entry))
                  + unat (e_k (ae_oca entry)) * unat (e_len (ae_oca entry))
                  - unat (as_suffix_ext (ae_cur_stripe entry)))"
proof -
  define S where "S = unat (as_stripenum (ae_cur_stripe entry))"
  define K where "K = unat (e_k (ae_oca entry))"
  define L where "L = unat (e_len (ae_oca entry))"
  define P where "P = unat (as_prefix_ext (ae_cur_stripe entry))"
  define X where "X = unat (as_suffix_ext (ae_cur_stripe entry))"
  note defs = S_def K_def L_def P_def X_def
  let ?base = "as_stripenum (ae_cur_stripe entry) * ucast (e_k (ae_oca entry))
                 * ucast (e_len (ae_oca entry))"
  let ?nr32 = "e_k (ae_oca entry) * e_len (ae_oca entry)
                 + as_prefix_ext (ae_cur_stripe entry) - as_suffix_ext (ae_cur_stripe entry)"
  from nr32 sfx have h: "K * L + P < 2 ^ 32" "X \<le> K * L + P"
    by (simp_all add: defs)
  have kl: "unat (e_k (ae_oca entry) * e_len (ae_oca entry)) = K * L"
    using h(1) by (simp add: unat_mult_lem [THEN iffD1] defs)
  have klp: "unat (e_k (ae_oca entry) * e_len (ae_oca entry)
                    + as_prefix_ext (ae_cur_stripe entry)) = K * L + P"
    using h(1) by (simp add: unat_add_lem [THEN iffD1] kl P_def)
  have nr: "unat ?nr32 = K * L + P - X"
    using h(2) by (simp add: unat_sub word_le_nat_alt klp X_def)
  have kl64: "unat (ucast (e_k (ae_oca entry)) * ucast (e_len (ae_oca entry)) :: u64) = K * L"
    using h(1) by (simp add: unat_mult_lem [THEN iffD1] unat_ucast_up defs)
  have klp64: "unat (ucast (e_k (ae_oca entry)) * ucast (e_len (ae_oca entry))
                     + ucast (as_prefix_ext (ae_cur_stripe entry)) :: u64) = K * L + P"
    using h(1) by (simp add: unat_add_lem [THEN iffD1] kl64 unat_ucast_up P_def)
  have nr64: "unat (ucast (e_k (ae_oca entry)) * ucast (e_len (ae_oca entry))
                     + ucast (as_prefix_ext (ae_cur_stripe entry))
                     - ucast (as_suffix_ext (ae_cur_stripe entry)) :: u64) = K * L + P - X"
    using h(2) by (simp add: unat_sub word_le_nat_alt klp64 unat_ucast_up X_def)
  have nr_w: "(ucast ?nr32 :: u64) =
                ucast (e_k (ae_oca entry)) * ucast (e_len (ae_oca entry))
                  + ucast (as_prefix_ext (ae_cur_stripe entry))
                  - ucast (as_suffix_ext (ae_cur_stripe entry))"
    by (simp add: word_unat_eq_iff unat_ucast_up nr nr64)
  have sum_w: "?base - ucast (as_prefix_ext (ae_cur_stripe entry)) + ucast ?nr32 =
                 ?base + ucast (e_k (ae_oca entry)) * ucast (e_len (ae_oca entry))
                   - ucast (as_suffix_ext (ae_cur_stripe entry))"
    unfolding nr_w by simp
  let ?recx = "\<lparr>rx_idx = ?base - ucast (as_prefix_ext (ae_cur_stripe entry)),
                rx_nr = ucast ?nr32\<rparr>"
  have ev: "agg_update_vos env entry =
           (ret env CommitUpdate,
            [VosArrayRemove 0 (as_hi_epoch (ae_cur_stripe entry)) ?recx,
             VosObjUpdate (as_hi_epoch (ae_cur_stripe entry))
               [\<lparr>rx_idx = (as_stripenum (ae_cur_stripe entry) * ucast (e_len (ae_oca entry)))
                            OR PARITY_INDICATOR,
                 rx_nr = ucast (e_len (ae_oca entry))\<rparr>]])"
    by (simp add: agg_update_vos_def Let_def)
  have c1: "rx_idx ?recx = ?base - ucast (as_prefix_ext (ae_cur_stripe entry))"
    by simp
  have "rx_idx ?recx + rx_nr ?recx =
          ?base - ucast (as_prefix_ext (ae_cur_stripe entry)) + ucast ?nr32"
    by simp
  also note sum_w
  finally have c2: "rx_idx ?recx + rx_nr ?recx =
                      ?base + ucast (e_k (ae_oca entry)) * ucast (e_len (ae_oca entry))
                        - ucast (as_suffix_ext (ae_cur_stripe entry))" .
  have nat_reading:
    "unat (rx_idx ?recx) = S * K * L - P
     \<and> unat (rx_idx ?recx) + unat (rx_nr ?recx) = S * K * L + K * L - X"
    if a: "P \<le> S * K * L" and b: "S * K * L + K * L < 2 ^ 64"
  proof -
    have skl: "unat ?base = S * K * L"
    proof -
      have "unat ?base = (S * K * L) mod 2 ^ 64"
        by (simp add: unat_word_ariths unat_ucast_up defs mod_mult_left_eq)
      with b show ?thesis by simp
    qed
    have idx: "unat (?base - ucast (as_prefix_ext (ae_cur_stripe entry))) = S * K * L - P"
      using a by (simp add: unat_sub word_le_nat_alt skl unat_ucast_up P_def)
    have "S * K * L - P + (K * L + P - X) = S * K * L + K * L - X"
      using a h(2) by linarith
    with idx show ?thesis
      by (simp add: unat_ucast_up nr)
  qed
  have c3: "unat (as_prefix_ext (ae_cur_stripe entry))
                  \<le> unat (as_stripenum (ae_cur_stripe entry)) * unat (e_k (ae_oca entry))
                      * unat (e_len (ae_oca entry))
              \<and> unat (as_stripenum (ae_cur_stripe entry)) * unat (e_k (ae_oca entry))
                  * unat (e_len (ae_oca entry))
                + unat (e_k (ae_oca entry)) * unat (e_len (ae_oca entry)) < 2 ^ 64
              \<longrightarrow>
                unat (rx_idx ?recx) =
                  unat (as_stripenum (ae_cur_stripe entry)) * unat (e_k (ae_oca entry))
                    * unat (e_len (ae_oca entry))
                  - unat (as_prefix_ext (ae_cur_stripe entry))
                \<and> unat (rx_idx ?recx) + unat (rx_nr ?recx) =
                  unat (as_stripenum (ae_cur_stripe entry)) * unat (e_k (ae_oca entry))
                    * unat (e_len (ae_oca entry))
                  + unat (e_k (ae_oca entry)) * unat (e_len (ae_oca entry))
                  - unat (as_suffix_ext (ae_cur_stripe entry))"
    using nat_reading unfolding defs by blast
  show ?thesis
    by (rule exI [of _ ?recx]) (intro conjI ev c1 c2 c3)
qed

text \<open>Stripe 1 of 32 records with a prefix of 2 and a suffix of 3: the range removed is
  the 31 records from 30, that is from \<open>32 - 2\<close> up to \<open>32 + 32 - 3\<close>.\<close>

theorem commit_removes_exact_range_witness:
  "unat (as_prefix_ext stripe_second) \<le> unat (as_stripenum stripe_second) * 4 * 8
   \<and> unat (as_stripenum stripe_second) * 4 * 8 + 4 * 8 < (2::nat) ^ 64
   \<and> 4 * 8 + unat (as_prefix_ext stripe_second) < (2::nat) ^ 32
   \<and> unat (as_suffix_ext stripe_second) \<le> 4 * 8 + unat (as_prefix_ext stripe_second)
   \<and> agg_update_vos env_ok (entry_of oca_4_1_8 1 stripe_second) =
       (0, [VosArrayRemove 0 12 \<lparr>rx_idx = 30, rx_nr = 31\<rparr>,
            VosObjUpdate 12 [\<lparr>rx_idx = 8 OR PARITY_INDICATOR, rx_nr = 8\<rparr>]])
   \<and> (30::nat) = 1 * 4 * 8 - 2 \<and> (30::nat) + 31 = 1 * 4 * 8 + 4 * 8 - 3"
  using commit_removes_exact_range [of "entry_of oca_4_1_8 1 stripe_second" env_ok]
  by (simp add: ex_defs agg_update_vos_def)

section \<open>C3: the suffix retained before the commit\<close>

lemma agg_carry_over_nat:
  fixes oca x
  defines "S \<equiv> unat (obj_ec_stripe_rec_nr oca)"
  assumes nz: "obj_ec_stripe_rec_nr oca \<noteq> 0" and ok: "extent_ok S x"
  shows "agg_carry_over oca x =
           Some (if crosses_stripe_end S x then of_nat (recs_in_next_stripe S x) else 0)
         \<and> (crosses_stripe_end S x \<longrightarrow>
              0 < recs_in_next_stripe S x \<and> recs_in_next_stripe S x \<le> S
              \<and> recs_in_own_stripe S x \<le> S
              \<and> recs_in_next_stripe S x + recs_in_own_stripe S x = unat (rx_nr (ae_recx x)))"
proof -
  define I where "I = unat (rx_idx (ae_recx x))"
  define N where "N = unat (rx_nr (ae_recx x))"
  define E where "E = (I + N - 1) div S"
  from nz have Spos: "0 < S" by (simp add: S_def unat_gt_0)
  have S32: "S < 2 ^ 32" unfolding S_def by (rule unat_u32_lt)
  from ok have Npos: "0 < N" and nowrap: "I + N < 2 ^ 64" and two: "E \<le> I div S + 1"
    by (simp_all add: extent_ok_def I_def N_def E_def)
  have uS: "unat (ucast (obj_ec_stripe_rec_nr oca) :: u64) = S"
    by (simp add: unat_ucast_up S_def)
  have usum: "unat (rx_idx (ae_recx x) + rx_nr (ae_recx x)) = I + N"
    using nowrap by (simp add: I_def N_def unat_add_lem [THEN iffD1])
  have sum_nz: "rx_idx (ae_recx x) + rx_nr (ae_recx x) \<noteq> 0"
    using usum Npos by (metis add_is_0 less_numeral_extra(3) unat_0)
  have um1: "unat (rx_idx (ae_recx x) + rx_nr (ae_recx x) - 1) = I + N - 1"
    using usum sum_nz by (simp add: unat_minus_one)
  have ustart: "unat (rx_idx (ae_recx x) div ucast (obj_ec_stripe_rec_nr oca)) = I div S"
    by (simp add: unat_div uS I_def)
  have uend: "unat ((rx_idx (ae_recx x) + rx_nr (ae_recx x) - 1)
                      div ucast (obj_ec_stripe_rec_nr oca)) = E"
    by (simp add: unat_div uS um1 E_def)
  have cross: "crosses_stripe_end S x \<longleftrightarrow> I div S < E"
    by (simp add: crosses_stripe_end_def I_def N_def E_def)
  show ?thesis
  proof (cases "I div S < E")
    case False
    then show ?thesis
      using nz by (simp add: agg_carry_over_def Let_def word_less_nat_alt ustart uend cross)
  next
    case True
    with two have E: "E = I div S + 1" by simp
    have ES_le: "E * S \<le> I + N - 1"
      unfolding E_def by (rule div_times_less_eq_dividend)
    have lt_ES: "I < E * S"
      unfolding E using dividend_less_div_times [OF Spos, of I] by simp
    have "I + N - 1 < S + E * S"
      unfolding E_def using dividend_less_div_times [OF Spos, of "I + N - 1"] by simp
    with ES_le Npos have T_le: "I + N - E * S \<le> S" by linarith
    from ES_le Npos have T_pos: "0 < I + N - E * S" by linarith
    have uES: "unat ((rx_idx (ae_recx x) + rx_nr (ae_recx x) - 1)
                      div ucast (obj_ec_stripe_rec_nr oca) * ucast (obj_ec_stripe_rec_nr oca))
               = E * S"
    proof -
      have "E * S < 2 ^ 64" using ES_le nowrap by linarith
      then show ?thesis
        by (simp add: unat_mult_lem [THEN iffD1] uend uS)
    qed
    have utail64: "unat (rx_idx (ae_recx x) + rx_nr (ae_recx x)
                     - (rx_idx (ae_recx x) + rx_nr (ae_recx x) - 1)
                        div ucast (obj_ec_stripe_rec_nr oca) * ucast (obj_ec_stripe_rec_nr oca))
                   = I + N - E * S"
    proof -
      have "E * S \<le> I + N" using ES_le by linarith
      then show ?thesis
        by (simp add: unat_sub word_le_nat_alt uES usum)
    qed
    have diff1: "(rx_idx (ae_recx x) + rx_nr (ae_recx x) - 1)
                      div ucast (obj_ec_stripe_rec_nr oca)
                  - rx_idx (ae_recx x) div ucast (obj_ec_stripe_rec_nr oca) = 1"
    proof -
      have "unat ((rx_idx (ae_recx x) + rx_nr (ae_recx x) - 1)
                      div ucast (obj_ec_stripe_rec_nr oca)
                  - rx_idx (ae_recx x) div ucast (obj_ec_stripe_rec_nr oca)) = E - I div S"
        using True by (simp add: unat_sub word_le_nat_alt ustart uend)
      then show ?thesis
        using E by (simp add: word_unat_eq_iff)
    qed
    have lt: "rx_idx (ae_recx x) div ucast (obj_ec_stripe_rec_nr oca)
               < (rx_idx (ae_recx x) + rx_nr (ae_recx x) - 1)
                      div ucast (obj_ec_stripe_rec_nr oca)"
      using True by (simp add: word_less_nat_alt ustart uend)
    have tail_eq: "(ucast (rx_idx (ae_recx x) + rx_nr (ae_recx x)
                     - (rx_idx (ae_recx x) + rx_nr (ae_recx x) - 1)
                        div ucast (obj_ec_stripe_rec_nr oca) * ucast (obj_ec_stripe_rec_nr oca))
                    :: u32) = of_nat (I + N - E * S)"
      by (simp add: word_unat_eq_iff unat_ucast_down utail64 unat_of_nat)
    have next_eq: "recs_in_next_stripe S x = I + N - E * S"
      by (simp add: recs_in_next_stripe_def I_def N_def E)
    have own_eq: "recs_in_own_stripe S x = E * S - I"
      by (simp add: recs_in_own_stripe_def I_def E)
    from True cross have c: "crosses_stripe_end S x" by simp
    have "agg_carry_over oca x = Some (of_nat (I + N - E * S))"
      using nz lt diff1 tail_eq by (simp add: agg_carry_over_def Let_def)
    moreover have "recs_in_next_stripe S x + recs_in_own_stripe S x = N"
      using lt_ES ES_le Npos by (simp add: next_eq own_eq)
    moreover have "recs_in_own_stripe S x \<le> S"
    proof -
      define q where "q = I div S * S"
      have "q \<le> I" unfolding q_def by (rule div_times_less_eq_dividend)
      moreover have "E * S = q + S" by (simp add: E q_def)
      ultimately show ?thesis by (simp add: own_eq)
    qed
    ultimately show ?thesis
      using c T_pos T_le by (simp add: next_eq N_def)
  qed
qed


lemma agg_carry_under_loop_nat:
  fixes oca
  defines "S \<equiv> unat (obj_ec_stripe_rec_nr oca)"
  assumes nz: "obj_ec_stripe_rec_nr oca \<noteq> 0" and ok: "list_all (extent_ok S) xs"
  shows "\<exists>v. agg_carry_under_loop oca xs = Some v
           \<and> unat v = (case find (crosses_stripe_end S) xs of
                         None \<Rightarrow> 0 | Some x \<Rightarrow> recs_in_own_stripe S x)"
  using ok
proof (induction xs)
  case Nil
  then show ?case by simp
next
  case (Cons x xs)
  from Cons.prems have okx: "extent_ok S x" and okxs: "list_all (extent_ok S) xs"
    by simp_all
  note co = agg_carry_over_nat [OF nz okx [unfolded S_def], folded S_def]
  have S32: "S < 2 ^ 32" unfolding S_def by (rule unat_u32_lt)
  show ?case
  proof (cases "crosses_stripe_end S x")
    case False
    with co Cons.IH [OF okxs] show ?thesis by simp
  next
    case True
    let ?T = "recs_in_next_stripe S x"
    let ?H = "recs_in_own_stripe S x"
    from co True have c: "agg_carry_over oca x = Some (of_nat ?T)"
      and Tpos: "0 < ?T" and TS: "?T \<le> S" and HS: "?H \<le> S"
      and sum: "?T + ?H = unat (rx_nr (ae_recx x))"
      by simp_all
    from TS S32 have uT: "unat (of_nat ?T :: u32) = ?T"
      by (simp add: unat_of_nat)
    with Tpos have nz_t: "(of_nat ?T :: u32) \<noteq> 0"
      by (metis less_numeral_extra(3) unat_0)
    have uT64: "unat (ucast (of_nat ?T :: u32) :: u64) = ?T"
      by (simp add: unat_ucast_up uT)
    have "unat (rx_nr (ae_recx x) - ucast (of_nat ?T :: u32)) = ?H"
      using sum by (simp add: unat_sub word_le_nat_alt uT64)
    with HS S32
    have "unat (ucast (rx_nr (ae_recx x) - ucast (of_nat ?T :: u32)) :: u32) = ?H"
      by (simp add: unat_ucast_down)
    with c nz_t True show ?thesis by simp
  qed
qed

lemma agg_get_carry_under_cong:
  "ae_cur_stripe e' = ae_cur_stripe e \<Longrightarrow> ae_oca e' = ae_oca e \<Longrightarrow>
     agg_get_carry_under e' = agg_get_carry_under e"
  by (simp add: agg_get_carry_under_def)

lemma agg_clear_extents_suffix:
  "agg_clear_extents e = Some e' \<Longrightarrow>
     as_suffix_ext (ae_cur_stripe e') = as_suffix_ext (ae_cur_stripe e)"
  by (auto simp: agg_clear_extents_def Let_def split: option.splits)

lemma agg_peer_update_events:
  "agg_peer_update env e = Some (rc, e', evs) \<Longrightarrow> ev \<in> set evs \<Longrightarrow>
     \<exists>req. ev = RpcEcAggregate req \<and> ea_after_len req = as_suffix_ext (ae_cur_stripe e)"
  by (auto simp: agg_peer_update_def agg_peer_update_ult_def agg_peer_update_req_def Let_def
           split: if_splits option.splits prod.splits dest!: agg_get_obj_handle_frame)

text \<open>The commit branch at the label \<^verbatim>\<open>out\<close> of \<^verbatim>\<open>agg_process_stripe\<close>: a run that
  returns has stored the result of \<^verbatim>\<open>agg_get_carry_under\<close> in \<open>as_suffix_ext\<close> and has
  changed nothing else of the stripe; a request sent to the peer carries that value,
  and a removal from the store is the one \<^verbatim>\<open>agg_update_vos\<close> makes with it.\<close>

lemma agg_process_stripe_out_commit:
  assumes out: "agg_process_stripe_out env 0 True False e = Some (rc, e', evs)"
  shows "\<exists>sfx. agg_get_carry_under e = Some sfx
           \<and> ae_cur_stripe e' = (ae_cur_stripe e)\<lparr>as_suffix_ext := sfx\<rparr>
           \<and> ae_oca e' = ae_oca e
           \<and> (\<forall>req. RpcEcAggregate req \<in> set evs \<longrightarrow> ea_after_len req = sfx)
           \<and> (\<forall>lo hi recx. VosArrayRemove lo hi recx \<in> set evs \<longrightarrow>
                 VosArrayRemove lo hi recx \<in> set (snd (agg_update_vos env e')))
           \<and> (rc = 0 \<longrightarrow> (\<exists>evs0. evs = evs0 @ snd (agg_update_vos env e')))"
proof -
  from out obtain sfx where cu: "agg_get_carry_under e = Some sfx"
    by (auto simp: agg_process_stripe_out_def split: option.splits)
  let ?e1 = "e\<lparr>ae_cur_stripe := (ae_cur_stripe e)\<lparr>as_suffix_ext := sfx\<rparr>\<rparr>"
  from out cu obtain rc1 evs1 where
    peer: "(if e_p (ae_oca ?e1) > 1 then agg_peer_update env ?e1 else Some (0, ?e1, []))
             = Some (rc1, e', evs1)"
    and res: "(rc, evs) = (if rc1 = 0 then (fst (agg_update_vos env e'),
                                            evs1 @ snd (agg_update_vos env e'))
                           else (rc1, evs1))"
    by (auto simp: agg_process_stripe_out_def Let_def split: option.splits if_splits)
  have st: "ae_cur_stripe e' = ae_cur_stripe ?e1" and oca: "ae_oca e' = ae_oca e"
    using peer by (auto split: if_splits dest!: agg_peer_update_frame)
  have ev1: "\<exists>req. ev = RpcEcAggregate req \<and> ea_after_len req = sfx" if "ev \<in> set evs1" for ev
    using peer that by (auto split: if_splits dest: agg_peer_update_events)
  have uv: "\<forall>x \<in> set (snd (agg_update_vos env e')). \<forall>req. x \<noteq> RpcEcAggregate req"
    by (simp add: agg_update_vos_def Let_def)
  have a: "ea_after_len req = sfx" if "RpcEcAggregate req \<in> set evs" for req
  proof (cases "RpcEcAggregate req \<in> set evs1")
    case True
    from ev1 [OF this] show ?thesis by simp
  next
    case False
    with that res have "RpcEcAggregate req \<in> set (snd (agg_update_vos env e'))"
      by (auto split: if_splits)
    with uv show ?thesis by blast
  qed
  have b: "VosArrayRemove lo hi recx \<in> set (snd (agg_update_vos env e'))"
    if "VosArrayRemove lo hi recx \<in> set evs" for lo hi recx
  proof (cases "VosArrayRemove lo hi recx \<in> set evs1")
    case True
    from ev1 [OF this] show ?thesis by blast
  next
    case False
    with that res show ?thesis
      by (auto split: if_splits)
  qed
  have c: "\<exists>evs0. evs = evs0 @ snd (agg_update_vos env e')" if "rc = 0"
    using that res by (auto split: if_splits)
  from cu st oca a b c show ?thesis by simp
qed

text \<open>Without a peer (\<open>p\<close> at most 1) the commit branch returns whenever
  \<^verbatim>\<open>agg_get_carry_under\<close> does, which it does for the extents of the theorem below:
  the suffix is stored and \<^verbatim>\<open>agg_update_vos\<close> runs with it.\<close>

lemma agg_process_stripe_out_commit_local:
  assumes "agg_get_carry_under e = Some sfx" and "\<not> e_p (ae_oca e) > 1"
  shows "agg_process_stripe_out env 0 True False e =
           Some (ret env CommitUpdate,
                 e\<lparr>ae_cur_stripe := (ae_cur_stripe e)\<lparr>as_suffix_ext := sfx\<rparr>\<rparr>,
                 snd (agg_update_vos env
                        (e\<lparr>ae_cur_stripe := (ae_cur_stripe e)\<lparr>as_suffix_ext := sfx\<rparr>\<rparr>)))"
  using assms by (simp add: agg_process_stripe_out_def Let_def agg_update_vos_def)

text \<open>On every other way through the label \<^verbatim>\<open>out\<close> (a failure before it, the no-op
  and the hole path), \<open>as_suffix_ext\<close> is left as it was.\<close>

lemma agg_process_stripe_out_keeps_suffix:
  assumes "agg_process_stripe_out env rc update_vos process_holes e = Some (rc', e', evs)"
    and "rc \<noteq> 0 \<or> process_holes \<or> \<not> update_vos"
  shows "as_suffix_ext (ae_cur_stripe e') = as_suffix_ext (ae_cur_stripe e)"
  using assms
  by (auto simp: agg_process_stripe_out_def split: if_splits dest!: agg_process_holes_frame)

text \<open>
  C3, as amended. Take a run of \<^verbatim>\<open>agg_process_stripe\<close> that returns, on a stripe of
  at least one record whose extents are not empty, do not wrap around and reach at most
  into the next stripe. If the run reaches the commit branch (the reconciliation before
  the label \<^verbatim>\<open>out\<close> has ended with \<open>rc = 0\<close>, \<open>update_vos\<close> set and \<open>process_holes\<close>
  clear), then \<open>as_suffix_ext\<close> has been set to the number of records that the first
  extent crossing the stripe's trailing boundary has in the closing stripe (its length
  less the tail in the next stripe), or to 0 when no extent crosses, and it still has
  that value when the stripe has been cleared. Every request sent to the peer after
  \<^verbatim>\<open>out\<close> carries it as \<open>after_len\<close>; every removal made after \<^verbatim>\<open>out\<close> is over the
  epochs 0 to the stripe's \<open>as_hi_epoch\<close>, starts at \<open>stripenum * k * len - prefix_ext\<close>
  and has the count \<open>k * len + prefix_ext - suffix_ext\<close> with it; and when the run returns
  0 that removal has been made. If the run does not reach the commit branch (a failure,
  the no-op, the hole path), \<open>as_suffix_ext\<close> is what it was before the run.
\<close>

theorem commit_suffix_ext_counts_own_stripe:
  assumes nz: "obj_ec_stripe_rec_nr (ae_oca entry) \<noteq> 0"
    and ok: "list_all (extent_ok (unat (obj_ec_stripe_rec_nr (ae_oca entry))))
               (as_dextents (ae_cur_stripe entry))"
    and q: "agg_query_parity env entry = Some (rc0, e1)"
    and b: "agg_process_stripe_body env rc0 e1 =
              Some (rc1, update_vos, process_holes, e2, evs1)"
    and run: "agg_process_stripe env entry = Some (rc, e', evs)"
  shows "if rc1 = 0 \<and> update_vos \<and> \<not> process_holes
         then
           unat (as_suffix_ext (ae_cur_stripe e')) =
             (case find (crosses_stripe_end (unat (obj_ec_stripe_rec_nr (ae_oca entry))))
                     (as_dextents (ae_cur_stripe entry)) of
                None \<Rightarrow> 0
              | Some x \<Rightarrow> recs_in_own_stripe (unat (obj_ec_stripe_rec_nr (ae_oca entry))) x)
           \<and> (\<exists>evs2. evs = evs1 @ evs2
                \<and> (\<forall>req. RpcEcAggregate req \<in> set evs2 \<longrightarrow>
                      ea_after_len req = as_suffix_ext (ae_cur_stripe e'))
                \<and> (\<forall>lo hi recx. VosArrayRemove lo hi recx \<in> set evs2 \<longrightarrow>
                      lo = 0 \<and> hi = as_hi_epoch (ae_cur_stripe entry)
                      \<and> rx_idx recx =
                          as_stripenum (ae_cur_stripe entry) * ucast (e_k (ae_oca entry))
                            * ucast (e_len (ae_oca entry))
                          - ucast (as_prefix_ext (ae_cur_stripe entry))
                      \<and> rx_nr recx =
                          ucast (e_k (ae_oca entry) * e_len (ae_oca entry)
                                 + as_prefix_ext (ae_cur_stripe entry)
                                 - as_suffix_ext (ae_cur_stripe e')))
                \<and> (rc = 0 \<longrightarrow>
                      (\<exists>recx. VosArrayRemove 0 (as_hi_epoch (ae_cur_stripe entry)) recx
                                \<in> set evs2)))
         else as_suffix_ext (ae_cur_stripe e') = as_suffix_ext (ae_cur_stripe entry)"
    (is "if ?C then ?A else ?B")
proof -
  from run q b obtain e3 evs2 where
    out: "agg_process_stripe_out env rc1 update_vos process_holes e2 = Some (rc, e3, evs2)"
    and clr: "agg_clear_extents e3 = Some e'"
    and evs: "evs = evs1 @ evs2"
    by (auto simp: agg_process_stripe_def split: option.splits)
  from agg_query_parity_frame [OF q] agg_process_stripe_body_frame [OF b]
  have fr: "ae_cur_stripe e2 = ae_cur_stripe entry" "ae_oca e2 = ae_oca entry"
    by simp_all
  show ?thesis
  proof (cases ?C)
    case False
    then have "rc1 \<noteq> 0 \<or> process_holes \<or> \<not> update_vos"
      by blast
    from agg_process_stripe_out_keeps_suffix [OF out this] agg_clear_extents_suffix [OF clr]
    have B: ?B
      by (simp add: fr)
    show ?thesis
      unfolding if_not_P [OF False] by (rule B)
  next
    case True
    with out have out': "agg_process_stripe_out env 0 True False e2 = Some (rc, e3, evs2)"
      by simp
    from out' obtain sfx where
      cu: "agg_get_carry_under e2 = Some sfx"
      and st: "ae_cur_stripe e3 = (ae_cur_stripe e2)\<lparr>as_suffix_ext := sfx\<rparr>"
      and oca: "ae_oca e3 = ae_oca e2"
      by (auto simp: agg_process_stripe_out_def Let_def split: option.splits if_splits
               dest!: agg_peer_update_frame)
    from agg_process_stripe_out_commit [OF out'] cu have
      rpc: "\<forall>req. RpcEcAggregate req \<in> set evs2 \<longrightarrow> ea_after_len req = sfx"
      and rm: "\<forall>lo hi recx. VosArrayRemove lo hi recx \<in> set evs2 \<longrightarrow>
                 VosArrayRemove lo hi recx \<in> set (snd (agg_update_vos env e3))"
      and fin: "rc = 0 \<longrightarrow> (\<exists>evs0. evs2 = evs0 @ snd (agg_update_vos env e3))"
      by auto
    from agg_clear_extents_suffix [OF clr] st
    have sfx: "as_suffix_ext (ae_cur_stripe e') = sfx"
      by simp
    from cu agg_get_carry_under_cong [OF fr]
    have "agg_carry_under_loop (ae_oca entry) (as_dextents (ae_cur_stripe entry)) = Some sfx"
      by (simp add: agg_get_carry_under_def)
    with agg_carry_under_loop_nat [OF nz ok]
    have c1: "unat sfx =
             (case find (crosses_stripe_end (unat (obj_ec_stripe_rec_nr (ae_oca entry))))
                     (as_dextents (ae_cur_stripe entry)) of
                None \<Rightarrow> 0
              | Some x \<Rightarrow> recs_in_own_stripe (unat (obj_ec_stripe_rec_nr (ae_oca entry))) x)"
      by auto
    have uv: "snd (agg_update_vos env e3) =
            [VosArrayRemove 0 (as_hi_epoch (ae_cur_stripe entry))
               \<lparr>rx_idx = as_stripenum (ae_cur_stripe entry) * ucast (e_k (ae_oca entry))
                            * ucast (e_len (ae_oca entry))
                          - ucast (as_prefix_ext (ae_cur_stripe entry)),
                rx_nr = ucast (e_k (ae_oca entry) * e_len (ae_oca entry)
                               + as_prefix_ext (ae_cur_stripe entry) - sfx)\<rparr>,
             VosObjUpdate (as_hi_epoch (ae_cur_stripe entry))
               [\<lparr>rx_idx = (as_stripenum (ae_cur_stripe entry) * ucast (e_len (ae_oca entry)))
                            OR PARITY_INDICATOR,
                 rx_nr = ucast (e_len (ae_oca entry))\<rparr>]]"
      by (simp add: agg_update_vos_def Let_def st oca fr)
    have c3: "lo = 0 \<and> hi = as_hi_epoch (ae_cur_stripe entry)
              \<and> rx_idx recx =
                  as_stripenum (ae_cur_stripe entry) * ucast (e_k (ae_oca entry))
                    * ucast (e_len (ae_oca entry))
                  - ucast (as_prefix_ext (ae_cur_stripe entry))
              \<and> rx_nr recx =
                  ucast (e_k (ae_oca entry) * e_len (ae_oca entry)
                         + as_prefix_ext (ae_cur_stripe entry) - sfx)"
      if "VosArrayRemove lo hi recx \<in> set evs2" for lo hi recx
    proof -
      from rm that have "VosArrayRemove lo hi recx \<in> set (snd (agg_update_vos env e3))"
        by blast
      then show ?thesis
        unfolding uv by auto
    qed
    have c4: "\<exists>recx. VosArrayRemove 0 (as_hi_epoch (ae_cur_stripe entry)) recx \<in> set evs2"
      if "rc = 0"
    proof -
      from fin that obtain evs0 where "evs2 = evs0 @ snd (agg_update_vos env e3)"
        by blast
      then show ?thesis
        unfolding uv by auto
    qed
    from c1 rpc c3 c4 evs have A: ?A
      unfolding sfx by blast
    show ?thesis
      unfolding if_P [OF True] by (rule A)
  qed
qed

text \<open>Stripe 0 of 32 records is full, with a last extent over records 30 to 34, and
  there is no parity: the run reaches the commit branch after the fetch and the encode
  and returns 0. Of the 5 records of the last extent, 2 lie in the closing stripe:
  \<open>as_suffix_ext\<close> is 2, and the removal is of the 30 records from 0. The same stripe
  with an \<open>as_suffix_ext\<close> of 7 left by an earlier commit and a parity extent at the
  later epoch 20 is closed without a commit, and \<open>as_suffix_ext\<close> is still 7.\<close>

theorem commit_suffix_ext_counts_own_stripe_witness:
  "obj_ec_stripe_rec_nr (ae_oca (entry_of oca_4_1_8 1 stripe_full_cross)) \<noteq> 0
   \<and> list_all (extent_ok 32) (as_dextents stripe_full_cross)
   \<and> agg_query_parity env_ok (entry_of oca_4_1_8 1 stripe_full_cross) =
       Some (0, (entry_of oca_4_1_8 1 stripe_full_cross)
                  \<lparr>ae_par_extent := \<lparr>ape_recx = \<lparr>rx_idx = 0, rx_nr = 0\<rparr>, ape_epoch = - 1\<rparr>\<rparr>)
   \<and> agg_process_stripe_body env_ok 0
       ((entry_of oca_4_1_8 1 stripe_full_cross)
          \<lparr>ae_par_extent := \<lparr>ape_recx = \<lparr>rx_idx = 0, rx_nr = 0\<rparr>, ape_epoch = - 1\<rparr>\<rparr>) =
       Some (0, True, False,
             (entry_of oca_4_1_8 1 stripe_full_cross)
               \<lparr>ae_sgl_nr := 4,
                ae_par_extent := \<lparr>ape_recx = \<lparr>rx_idx = 0, rx_nr = 0\<rparr>, ape_epoch = - 1\<rparr>\<rparr>,
             [VosObjFetch 12 [\<lparr>rx_idx = 0, rx_nr = 32\<rparr>], EcEncodeData 8 [0]])
   \<and> find (crosses_stripe_end 32) (as_dextents stripe_full_cross) =
       Some \<lparr>ae_recx = \<lparr>rx_idx = 30, rx_nr = 5\<rparr>, ae_epoch = 12, ae_hole = False\<rparr>
   \<and> recs_in_own_stripe 32
        \<lparr>ae_recx = \<lparr>rx_idx = 30, rx_nr = 5\<rparr>, ae_epoch = 12, ae_hole = False\<rparr> = 2
   \<and> (\<exists>e'. agg_process_stripe env_ok (entry_of oca_4_1_8 1 stripe_full_cross) =
              Some (0, e',
                    [VosObjFetch 12 [\<lparr>rx_idx = 0, rx_nr = 32\<rparr>], EcEncodeData 8 [0],
                     VosArrayRemove 0 12 \<lparr>rx_idx = 0, rx_nr = 30\<rparr>,
                     VosObjUpdate 12 [\<lparr>rx_idx = PARITY_INDICATOR, rx_nr = 8\<rparr>]])
          \<and> unat (as_suffix_ext (ae_cur_stripe e')) = 2)
   \<and> agg_process_stripe_body (env_ok\<lparr>probe_entries := [parity_at 20]\<rparr>) 0
       (found_parity 20 (entry_of oca_4_1_8 1 (stripe_full_cross\<lparr>as_suffix_ext := 7\<rparr>))) =
       Some (0, False, False,
             found_parity 20 (entry_of oca_4_1_8 1 (stripe_full_cross\<lparr>as_suffix_ext := 7\<rparr>)),
             [])
   \<and> (\<exists>e'. agg_process_stripe (env_ok\<lparr>probe_entries := [parity_at 20]\<rparr>)
              (entry_of oca_4_1_8 1 (stripe_full_cross\<lparr>as_suffix_ext := 7\<rparr>)) = Some (0, e', [])
          \<and> as_suffix_ext (ae_cur_stripe e') = 7)"
proof -
  let ?e = "entry_of oca_4_1_8 1 stripe_full_cross"
  let ?e1 = "?e\<lparr>ae_par_extent := \<lparr>ape_recx = \<lparr>rx_idx = 0, rx_nr = 0\<rparr>, ape_epoch = - 1\<rparr>\<rparr>"
  let ?e2 = "?e\<lparr>ae_sgl_nr := 4,
                ae_par_extent := \<lparr>ape_recx = \<lparr>rx_idx = 0, rx_nr = 0\<rparr>, ape_epoch = - 1\<rparr>\<rparr>"
  let ?n = "entry_of oca_4_1_8 1 (stripe_full_cross\<lparr>as_suffix_ext := 7\<rparr>)"
  let ?env = "env_ok\<lparr>probe_entries := [parity_at 20]\<rparr>"
  have a: "obj_ec_stripe_rec_nr (ae_oca ?e) \<noteq> 0"
    by (simp add: ex_defs obj_ec_stripe_rec_nr_def)
  have s: "unat (obj_ec_stripe_rec_nr (ae_oca ?e)) = 32"
    by (simp add: ex_defs obj_ec_stripe_rec_nr_def)
  have cs: "as_dextents (ae_cur_stripe ?e) = as_dextents stripe_full_cross"
    by (simp add: entry_of_def)
  have ok: "list_all (extent_ok 32) (as_dextents stripe_full_cross)"
    by (simp add: stripe_full_cross_def extent_ok_def)
  then have ok': "list_all (extent_ok (unat (obj_ec_stripe_rec_nr (ae_oca ?e))))
                    (as_dextents (ae_cur_stripe ?e))"
    by (simp only: s cs)
  have q: "agg_query_parity env_ok ?e = Some (0, ?e1)"
    by (simp add: ex_defs stripe_defs)
  have b: "agg_process_stripe_body env_ok 0 ?e1 =
             Some (0, True, False, ?e2,
                   [VosObjFetch 12 [\<lparr>rx_idx = 0, rx_nr = 32\<rparr>], EcEncodeData 8 [0]])"
    by (simp add: ex_defs iov_defs stripe_defs)
  have f: "find (crosses_stripe_end 32) (as_dextents stripe_full_cross) =
       Some \<lparr>ae_recx = \<lparr>rx_idx = 30, rx_nr = 5\<rparr>, ae_epoch = 12, ae_hole = False\<rparr>"
    by (simp add: stripe_full_cross_def crosses_stripe_end_def)
  have h: "recs_in_own_stripe 32
        \<lparr>ae_recx = \<lparr>rx_idx = 30, rx_nr = 5\<rparr>, ae_epoch = 12, ae_hole = False\<rparr> = 2"
    by (simp add: recs_in_own_stripe_def)
  obtain e' where run: "agg_process_stripe env_ok ?e =
              Some (0, e',
                    [VosObjFetch 12 [\<lparr>rx_idx = 0, rx_nr = 32\<rparr>], EcEncodeData 8 [0],
                     VosArrayRemove 0 12 \<lparr>rx_idx = 0, rx_nr = 30\<rparr>,
                     VosObjUpdate 12 [\<lparr>rx_idx = PARITY_INDICATOR, rx_nr = 8\<rparr>]])"
    by (simp add: ex_defs iov_defs stripe_defs)
  from commit_suffix_ext_counts_own_stripe [OF a ok' q b run]
  have c: "unat (as_suffix_ext (ae_cur_stripe e')) = 2"
    unfolding s cs f by (simp add: h)
  have an: "obj_ec_stripe_rec_nr (ae_oca ?n) \<noteq> 0"
    by (simp add: ex_defs obj_ec_stripe_rec_nr_def)
  have okn: "list_all (extent_ok (unat (obj_ec_stripe_rec_nr (ae_oca ?n))))
               (as_dextents (ae_cur_stripe ?n))"
    by (simp add: ex_defs obj_ec_stripe_rec_nr_def extent_ok_def)
  have qn: "agg_query_parity ?env ?n = Some (0, found_parity 20 ?n)"
    by (simp add: ex_defs stripe_defs)
  have bn: "agg_process_stripe_body ?env 0 (found_parity 20 ?n) =
              Some (0, False, False, found_parity 20 ?n, [])"
    by (simp add: ex_defs stripe_defs)
  obtain e'' where runn: "agg_process_stripe ?env ?n = Some (0, e'', [])"
    by (simp add: ex_defs iov_defs stripe_defs)
  from commit_suffix_ext_counts_own_stripe [OF an okn qn bn runn]
  have cn: "as_suffix_ext (ae_cur_stripe e'') = 7"
    by (simp add: entry_of_def)
  from a ok q b f h run c bn runn cn show ?thesis
    by blast
qed

text \<open>
  C3 as stated fails. Stripe 0 of 32 records is full, and its last extent covers
  records 30 to 34: 3 of its records lie in the next stripe. \<^verbatim>\<open>agg_process_stripe\<close>
  commits with \<open>as_suffix_ext = 2\<close>, removing the data range of 30 records from 0, and
  leaves the 3-record tail on the list with \<open>as_prefix_ext = 2\<close>.
\<close>

theorem suffix_ext_is_not_the_tail:
  "agg_process_stripe env_ok (entry_of oca_4_1_8 1 stripe_full_cross) =
     Some (0,
           (entry_of oca_4_1_8 1
              \<lparr>as_stripenum = 0, as_hi_epoch = 0,
               as_dextents = [\<lparr>ae_recx = \<lparr>rx_idx = 32, rx_nr = 3\<rparr>, ae_epoch = 12,
                               ae_hole = False\<rparr>],
               as_stripe_fill = 3, as_extent_cnt = 1, as_offset = 0, as_prefix_ext = 2,
               as_suffix_ext = 2, as_has_holes = False\<rparr>)
             \<lparr>ae_sgl_nr := 4,
              ae_par_extent := \<lparr>ape_recx = \<lparr>rx_idx = 0, rx_nr = 0\<rparr>, ape_epoch = - 1\<rparr>\<rparr>,
           [VosObjFetch 12 [\<lparr>rx_idx = 0, rx_nr = 32\<rparr>], EcEncodeData 8 [0],
            VosArrayRemove 0 12 \<lparr>rx_idx = 0, rx_nr = 30\<rparr>,
            VosObjUpdate 12 [\<lparr>rx_idx = PARITY_INDICATOR, rx_nr = 8\<rparr>]])
   \<and> recs_in_next_stripe 32
        \<lparr>ae_recx = \<lparr>rx_idx = 30, rx_nr = 5\<rparr>, ae_epoch = 12, ae_hole = False\<rparr> = 3"
  by (simp add: ex_defs iov_defs stripe_defs recs_in_next_stripe_def)

section \<open>C4: a failed encode offload\<close>

text \<open>
  C4, at a failing input. The stripe is full, there is no parity, and
  \<^verbatim>\<open>dss_ult_create\<close> fails with -5 inside \<^verbatim>\<open>agg_encode_full_stripe\<close>, which returns
  that -5. \<^verbatim>\<open>agg_encode_local_parity\<close> drops the value, so \<^verbatim>\<open>agg_process_stripe\<close> goes
  on to the commit: the data range is removed and the parity buffer, which no encoder
  has filled, is written, and the function returns 0.
\<close>

theorem encode_offload_failure_still_commits:
  "fst (agg_encode_full_stripe (env_ok\<lparr>ret := (\<lambda>s. if s = EncUltCreate then - 5 else 0)\<rparr>)
          (entry_of oca_4_1_8 1 stripe_full)) = - 5
   \<and> agg_process_stripe (env_ok\<lparr>ret := (\<lambda>s. if s = EncUltCreate then - 5 else 0)\<rparr>)
       (entry_of oca_4_1_8 1 stripe_full) =
     Some (0,
           (entry_of oca_4_1_8 1
              (stripe_full\<lparr>as_hi_epoch := 0, as_dextents := [], as_stripe_fill := 0,
                            as_extent_cnt := 0\<rparr>))
             \<lparr>ae_sgl_nr := 4,
              ae_par_extent := \<lparr>ape_recx = \<lparr>rx_idx = 0, rx_nr = 0\<rparr>, ape_epoch = - 1\<rparr>\<rparr>,
           [VosObjFetch 5 [\<lparr>rx_idx = 0, rx_nr = 32\<rparr>],
            VosArrayRemove 0 5 \<lparr>rx_idx = 0, rx_nr = 32\<rparr>,
            VosObjUpdate 5 [\<lparr>rx_idx = PARITY_INDICATOR, rx_nr = 8\<rparr>]])"
  by (simp add: ex_defs iov_defs stripe_defs)

text \<open>The partial-update path does hand the status on: when
  \<^verbatim>\<open>agg_process_partial_stripe\<close> returns a failure, \<^verbatim>\<open>agg_process_stripe\<close> reaches
  \<^verbatim>\<open>out\<close> with it and makes no call there. In general a nonzero \<open>rc\<close> at \<^verbatim>\<open>out\<close> means
  no commit.\<close>

lemma agg_process_stripe_out_failed:
  "rc \<noteq> 0 \<Longrightarrow> agg_process_stripe_out env rc update_vos process_holes entry = Some (rc, entry, [])"
  by (simp add: agg_process_stripe_out_def)

lemma agg_partial_failure_skips_commit:
  assumes "agg_process_partial_stripe env entry = Some (rc, e1, evs)" and "rc \<noteq> 0"
    and "ape_epoch (ae_par_extent entry) < as_hi_epoch (ae_cur_stripe entry)"
    and "\<not> agg_stripe_is_filled entry True" and "\<not> as_has_holes (ae_cur_stripe entry)"
  shows "agg_process_stripe_body env 0 entry = Some (rc, True, False, e1, evs)
         \<and> agg_process_stripe_out env rc True False e1 = Some (rc, e1, [])"
proof -
  from assms(3) have ne: "ape_epoch (ae_par_extent entry) \<noteq> - 1"
    by (metis word_order.extremum_strict)
  from assms(3) have nge: "\<not> as_hi_epoch (ae_cur_stripe entry) \<le> ape_epoch (ae_par_extent entry)"
    by simp
  show ?thesis
    using assms(1,2,4,5) ne nge
    by (simp add: agg_process_stripe_body_def agg_process_stripe_out_def)
qed

section \<open>C5: what the callbacks return when a stripe fails\<close>

text \<open>
  C5, at a failing input. The open stripe holds one extent and the parity query fails
  with -5. At akey exit, \<^verbatim>\<open>agg_akey_post\<close> returns that -5 to the iterator. On the
  extent path, with the same stripe and the same failure, \<^verbatim>\<open>agg_data_extent\<close> rotates
  to stripe 1 and returns 0.
\<close>

theorem akey_post_returns_stripe_failure:
  "agg_akey_post (env_ok\<lparr>ret := (\<lambda>s. if s = ProbeIterate then - 5 else 0)\<rparr>)
       (entry_of oca_4_1_8 1 stripe_head2) =
     Some (- 5,
           (entry_of oca_4_1_8 1
              (stripe_head2\<lparr>as_hi_epoch := 0, as_dextents := [], as_stripe_fill := 0,
                             as_extent_cnt := 0\<rparr>))
             \<lparr>ae_par_extent := \<lparr>ape_recx = \<lparr>rx_idx = 0, rx_nr = 0\<rparr>, ape_epoch = - 1\<rparr>\<rparr>,
           [])
   \<and> agg_data_extent (env_ok\<lparr>ret := (\<lambda>s. if s = ProbeIterate then - 5 else 0)\<rparr>)
       (entry_of oca_4_1_8 1 stripe_head2)
       \<lparr>ie_recx = \<lparr>rx_idx = 32, rx_nr = 8\<rparr>, ie_epoch = 13, ie_rsize = 1, ie_hole = False\<rparr> =
     Some (0,
           (entry_of oca_4_1_8 1
              \<lparr>as_stripenum = 1, as_hi_epoch = 13,
               as_dextents = [\<lparr>ae_recx = \<lparr>rx_idx = 32, rx_nr = 8\<rparr>, ae_epoch = 13,
                               ae_hole = False\<rparr>],
               as_stripe_fill = 8, as_extent_cnt = 1, as_offset = 0, as_prefix_ext = 0,
               as_suffix_ext = 0, as_has_holes = False\<rparr>)
             \<lparr>ae_par_extent := \<lparr>ape_recx = \<lparr>rx_idx = 0, rx_nr = 0\<rparr>, ape_epoch = - 1\<rparr>\<rparr>,
           [])"
  by (simp add: ex_defs iov_defs stripe_defs agg_akey_post_def agg_data_extent_def
        agg_stripenum_def agg_add_extent_def agg_in_stripe_def)

text \<open>On the extent path the only nonzero return is the failed allocation of the new
  extent.\<close>

lemma agg_add_extent_returns:
  "agg_add_extent env e x = Some (rc, e') \<Longrightarrow> rc = 0 \<or> rc = der_nomem env"
  by (auto simp: agg_add_extent_def Let_def split: if_splits option.splits)

lemma agg_data_extent_returns:
  "agg_data_extent env e x = Some (rc, e', evs) \<Longrightarrow> rc = 0 \<or> rc = der_nomem env"
  by (auto simp: agg_data_extent_def split: if_splits option.splits
           dest!: agg_add_extent_returns)

section \<open>C6: the strategy chosen for a partial stripe\<close>

text \<open>
  C6, at a failing input. Stripe 0 of a \<open>k = 4\<close>, \<open>len = 8\<close> object holds one replica
  extent over records 0 and 1. No cell is fully covered and cell 0 is the one cell
  overlapped, so the choice in the spec's words is update with bitmap \<open>{0}\<close>. The code
  counts cells 1, 2 and 3 as full (the unsigned \<^verbatim>\<open>estart - i * len + elen\<close> of
  \<^verbatim>\<open>agg_full_cells\<close> wraps around when the extent ends before the cell starts) and
  chooses recalc with bitmap \<open>{1, 2, 3}\<close>.
\<close>

theorem partial_choice_counts_uncovered_cells:
  "agg_partial_choice (entry_of oca_4_1_8 1 stripe_head2) = Some ({1, 2, 3}, 3, True)
   \<and> spec_partial_choice (entry_of oca_4_1_8 1 stripe_head2) = ({0}, False)"
  by code_simp

section \<open>C7: the epoch of the remote fetch of old data\<close>

lemma agg_fetch_odata_cells_events:
  "agg_fetch_odata_cells env e bm cnt r = Some (rc, e', evs) \<Longrightarrow> ev \<in> set evs \<Longrightarrow>
     \<exists>recxs. ev = DscObjFetch (ae_sgl_base e + 1)
                   (if r then as_hi_epoch (ae_cur_stripe e) else ape_epoch (ae_par_extent e))
                   recxs None"
  by (auto simp: agg_fetch_odata_cells_def Let_def split: if_splits option.splits
           dest!: agg_get_obj_handle_frame)

lemma agg_fetch_odata_cells_base:
  "agg_fetch_odata_cells env e bm cnt r = Some (0, e', evs) \<Longrightarrow>
     ae_sgl_base e' = ae_sgl_base e"
  by (auto simp: agg_fetch_odata_cells_def Let_def split: if_splits option.splits
           dest!: agg_get_obj_handle_frame)

lemma agg_fetch_remote_parity_events:
  "agg_fetch_remote_parity env e = Some (rc, evs) \<Longrightarrow> DscObjFetch s ep rx sh \<in> set evs \<Longrightarrow>
     s = ae_sgl_base e + AGG_IOV_PARITY"
  by (auto simp: agg_fetch_remote_parity_def Let_def split: if_splits)

lemma agg_update_parity_loop_events:
  "agg_update_parity_loop env e bm is j evs0 = Some (rc, evs) \<Longrightarrow>
     DscObjFetch s ep rx sh \<in> set evs \<Longrightarrow> DscObjFetch s ep rx sh \<in> set evs0"
proof (induction "is" arbitrary: j evs0)
  case Nil
  then show ?case by simp
next
  case (Cons i "is")
  show ?case
  proof (cases "ret env (XorGen i) = 0")
    case False
    with Cons.prems show ?thesis by simp
  next
    case True
    with Cons.prems obtain j' where
      "agg_update_parity_loop env e bm is j'
         (evs0 @ [EcEncodeDataUpdate (cell_bytes_of e) j' (parity_bufs e)]) = Some (rc, evs)"
      by (auto split: option.splits)
    from Cons.IH [OF this Cons.prems(2)] show ?thesis by simp
  qed
qed

lemma agg_update_parity_events:
  "agg_update_parity env e bm cnt = Some (rc, evs) \<Longrightarrow> DscObjFetch s ep rx sh \<notin> set evs"
  by (auto simp: agg_update_parity_def dest: agg_update_parity_loop_events)

lemma agg_recalc_parity_events:
  "agg_recalc_parity e bm cnt = Some evs \<Longrightarrow> DscObjFetch s ep rx sh \<notin> set evs"
  by (auto simp: agg_recalc_parity_def Let_def split: if_splits)

lemma agg_fetch_local_extents_events:
  "agg_fetch_local_extents env e bm cnt r = Some (rc, e', evs) \<Longrightarrow>
     DscObjFetch s ep rx sh \<notin> set evs"
  by (auto simp: agg_fetch_local_extents_def Let_def split: if_splits option.splits)

lemma agg_process_partial_stripe_ult_parts:
  assumes "agg_process_partial_stripe_ult env e bm cnt r = Some (st, e', evs)"
    and "agg_fetch_odata_cells env e bm cnt r = Some (rc1, e1, evs1)"
    and "ev \<in> set evs" and "ev \<notin> set evs1"
  shows "rc1 = 0 \<and>
         ((\<exists>rc b. agg_fetch_remote_parity env e1 = Some (rc, b) \<and> ev \<in> set b)
          \<or> (\<exists>x. agg_recalc_parity e1 bm cnt = Some x \<and> ev \<in> set x)
          \<or> (\<exists>rc x. agg_update_parity env e1 bm cnt = Some (rc, x) \<and> ev \<in> set x))"
  using assms
  by (auto simp: agg_process_partial_stripe_ult_def split: if_splits option.splits)

lemma agg_process_partial_stripe_ult_odata:
  assumes run: "agg_process_partial_stripe_ult env e bm cnt r = Some (st, e', evs)"
    and ev: "DscObjFetch (ae_sgl_base e + AGG_IOV_ODATA) ep rx sh \<in> set evs"
  shows "ep = (if r then as_hi_epoch (ae_cur_stripe e) else ape_epoch (ae_par_extent e))"
proof -
  from run obtain rc1 e1 evs1 where
    od: "agg_fetch_odata_cells env e bm cnt r = Some (rc1, e1, evs1)"
    by (auto simp: agg_process_partial_stripe_ult_def split: option.splits)
  show ?thesis
  proof (cases "DscObjFetch (ae_sgl_base e + AGG_IOV_ODATA) ep rx sh \<in> set evs1")
    case True
    from agg_fetch_odata_cells_events [OF od True] show ?thesis by auto
  next
    case False
    note parts = agg_process_partial_stripe_ult_parts [OF run od ev False]
    then have rc1: "rc1 = 0" by simp
    from agg_fetch_odata_cells_base od rc1 have base: "ae_sgl_base e1 = ae_sgl_base e"
      by simp
    from parts consider
        (remote) rc b where "agg_fetch_remote_parity env e1 = Some (rc, b)"
          "DscObjFetch (ae_sgl_base e + AGG_IOV_ODATA) ep rx sh \<in> set b"
      | (recalc) x where "agg_recalc_parity e1 bm cnt = Some x"
          "DscObjFetch (ae_sgl_base e + AGG_IOV_ODATA) ep rx sh \<in> set x"
      | (update) rc x where "agg_update_parity env e1 bm cnt = Some (rc, x)"
          "DscObjFetch (ae_sgl_base e + AGG_IOV_ODATA) ep rx sh \<in> set x"
      by blast
    then have False
    proof cases
      case remote
      from agg_fetch_remote_parity_events [OF remote] base show False
        by (simp add: iov_defs)
    next
      case recalc
      from agg_recalc_parity_events [OF recalc(1)] recalc(2) show False by simp
    next
      case update
      from agg_update_parity_events [OF update(1)] update(2) show False by simp
    qed
    then show ?thesis ..
  qed
qed

lemma agg_process_partial_stripe_ult_split:
  assumes "agg_process_partial_stripe_ult env e bm cnt r = Some (st, e', evs)"
    and "agg_fetch_odata_cells env e bm cnt r = Some (rc1, e1, evs1)"
  shows "\<exists>evs2 evs3. evs = evs1 @ evs2 @ evs3
           \<and> (evs2 = [] \<or> (\<exists>rc. agg_fetch_remote_parity env e1 = Some (rc, evs2)))
           \<and> (evs3 = [] \<or> agg_recalc_parity e1 bm cnt = Some evs3
                \<or> (\<exists>rc. agg_update_parity env e1 bm cnt = Some (rc, evs3)))"
proof (cases "rc1 = 0")
  case False
  with assms have "evs = evs1 @ [] @ []"
    by (simp add: agg_process_partial_stripe_ult_def)
  then show ?thesis by blast
next
  case True
  with assms obtain rc2 evs2 where
    p: "(if e_p (ae_oca e1) > 1 then agg_fetch_remote_parity env e1 else Some (0, [])) =
          Some (rc2, evs2)"
    by (auto simp: agg_process_partial_stripe_ult_def split: option.splits)
  then have two: "evs2 = [] \<or> (\<exists>rc. agg_fetch_remote_parity env e1 = Some (rc, evs2))"
    by (auto split: if_splits)
  show ?thesis
  proof (cases "rc2 = 0")
    case False
    with assms True p have "evs = evs1 @ evs2 @ []"
      by (simp add: agg_process_partial_stripe_ult_def)
    with two show ?thesis by blast
  next
    case rc2: True
    show ?thesis
    proof (cases r)
      case True
      with assms \<open>rc1 = 0\<close> p rc2 obtain evs3 where
        "agg_recalc_parity e1 bm cnt = Some evs3" "evs = evs1 @ evs2 @ evs3"
        by (auto simp: agg_process_partial_stripe_ult_def split: option.splits)
      with two show ?thesis by blast
    next
      case False
      with assms \<open>rc1 = 0\<close> p rc2 obtain rc3 evs3 where
        "agg_update_parity env e1 bm cnt = Some (rc3, evs3)" "evs = evs1 @ evs2 @ evs3"
        by (auto simp: agg_process_partial_stripe_ult_def split: option.splits)
      with two show ?thesis by blast
    qed
  qed
qed

text \<open>
  C7. \<^verbatim>\<open>agg_fetch_odata_cells\<close> is called with the strategy, \<open>recalc\<close> or not, that
  \<^verbatim>\<open>agg_process_partial_stripe\<close> has chosen and handed to its helper in
  \<^verbatim>\<open>asu_recalc\<close>. When its array is allocated and large enough for the cells of the
  bitmap, and the object handle is there or is opened, it makes exactly one call: the
  remote fetch of those cells into the slot \<^verbatim>\<open>AGG_IOV_ODATA\<close>, at the epoch of the
  parity extent for update and at the stripe's \<open>as_hi_epoch\<close> for recalc, and it returns
  what the fetch returns. A run of the helper \<^verbatim>\<open>agg_process_partial_stripe_ult\<close> that
  returns has made that fetch first, and no other into that slot.
\<close>

theorem odata_fetch_made_at_strategy_epoch:
  assumes alloc: "ret env OdataAllocRecxs = 0"
    and fits: "length (bitmap_recxs entry bit_map) \<le> unat cell_cnt"
    and hdl: "agg_get_obj_handle env
                (entry\<lparr>ae_sgl_nr := 1, ae_sgl_base := ae_sgl_base entry + 1\<rparr>) = Some (0, e1)"
  shows "agg_fetch_odata_cells env entry bit_map cell_cnt recalc =
           Some (ret env OdataFetch,
                 e1\<lparr>ae_sgl_base := ae_sgl_base entry, ae_sgl_nr := AGG_IOV_CNT\<rparr>,
                 [DscObjFetch (ae_sgl_base entry + AGG_IOV_ODATA)
                    (if recalc then as_hi_epoch (ae_cur_stripe entry)
                     else ape_epoch (ae_par_extent entry))
                    (iod_recxs_of (unat cell_cnt) (bitmap_recxs entry bit_map)) None])
         \<and> (\<forall>status e' evs.
               agg_process_partial_stripe_ult env entry bit_map cell_cnt recalc
                 = Some (status, e', evs) \<longrightarrow>
               (\<exists>rest. evs =
                    DscObjFetch (ae_sgl_base entry + AGG_IOV_ODATA)
                      (if recalc then as_hi_epoch (ae_cur_stripe entry)
                       else ape_epoch (ae_par_extent entry))
                      (iod_recxs_of (unat cell_cnt) (bitmap_recxs entry bit_map)) None # rest
                  \<and> (\<forall>ep rx sh.
                        DscObjFetch (ae_sgl_base entry + AGG_IOV_ODATA) ep rx sh \<notin> set rest)))"
proof -
  let ?f = "DscObjFetch (ae_sgl_base entry + AGG_IOV_ODATA)
              (if recalc then as_hi_epoch (ae_cur_stripe entry)
               else ape_epoch (ae_par_extent entry))
              (iod_recxs_of (unat cell_cnt) (bitmap_recxs entry bit_map)) None"
  let ?e = "e1\<lparr>ae_sgl_base := ae_sgl_base entry, ae_sgl_nr := AGG_IOV_CNT\<rparr>"
  from agg_get_obj_handle_frame [OF hdl]
  have fr: "ae_cur_stripe e1 = ae_cur_stripe entry" "ae_par_extent e1 = ae_par_extent entry"
    "ae_sgl_base e1 = ae_sgl_base entry + 1"
    by simp_all
  from fits have nfits: "\<not> unat cell_cnt < length (bitmap_recxs entry bit_map)"
    by simp
  have a: "agg_fetch_odata_cells env entry bit_map cell_cnt recalc
             = Some (ret env OdataFetch, ?e, [?f])"
    using alloc nfits hdl fr by (simp add: agg_fetch_odata_cells_def Let_def AGG_IOV_ODATA_def)
  have b: "\<exists>rest. evs = ?f # rest
             \<and> (\<forall>ep rx sh. DscObjFetch (ae_sgl_base entry + AGG_IOV_ODATA) ep rx sh \<notin> set rest)"
    if run: "agg_process_partial_stripe_ult env entry bit_map cell_cnt recalc
               = Some (status, e', evs)" for status e' evs
  proof -
    from agg_process_partial_stripe_ult_split [OF run a] obtain evs2 evs3 where
      evs: "evs = [?f] @ evs2 @ evs3"
      and two: "evs2 = [] \<or> (\<exists>rc. agg_fetch_remote_parity env ?e = Some (rc, evs2))"
      and three: "evs3 = [] \<or> agg_recalc_parity ?e bit_map cell_cnt = Some evs3
                    \<or> (\<exists>rc. agg_update_parity env ?e bit_map cell_cnt = Some (rc, evs3))"
      by blast
    have n2: "DscObjFetch (ae_sgl_base entry + AGG_IOV_ODATA) ep rx sh \<notin> set evs2" for ep rx sh
    proof
      assume m: "DscObjFetch (ae_sgl_base entry + AGG_IOV_ODATA) ep rx sh \<in> set evs2"
      then have "evs2 \<noteq> []" by auto
      with two obtain rc where "agg_fetch_remote_parity env ?e = Some (rc, evs2)"
        by blast
      from agg_fetch_remote_parity_events [OF this m] show False
        by (simp add: iov_defs)
    qed
    have n3: "DscObjFetch (ae_sgl_base entry + AGG_IOV_ODATA) ep rx sh \<notin> set evs3" for ep rx sh
    proof
      assume m: "DscObjFetch (ae_sgl_base entry + AGG_IOV_ODATA) ep rx sh \<in> set evs3"
      then have "evs3 \<noteq> []" by auto
      with three consider
          (recalc) "agg_recalc_parity ?e bit_map cell_cnt = Some evs3"
        | (update) rc where "agg_update_parity env ?e bit_map cell_cnt = Some (rc, evs3)"
        by blast
      then show False
      proof cases
        case recalc
        from agg_recalc_parity_events [OF recalc] m show False by simp
      next
        case update
        from agg_update_parity_events [OF update] m show False by simp
      qed
    qed
    from evs n2 n3 show ?thesis by simp
  qed
  from a b show ?thesis by blast
qed

text \<open>Two calls in which the fetch is made, in stripe 0 of a \<open>k = 4\<close>, \<open>len = 8\<close> object
  with data at epoch 12 and parity at epoch 5. With the strategy update and the bitmap
  \<open>{3}\<close> the fetch of cell 3 is made at epoch 5; with the strategy recalc and the bitmap
  \<open>{1, 2, 3}\<close> the fetch of cells 1 to 3 is made at epoch 12. In both the handle is opened
  by the call, and the helper goes on to the codec.\<close>

theorem odata_fetch_made_at_strategy_epoch_witness:
  "ret env_ok OdataAllocRecxs = 0
   \<and> length (bitmap_recxs (found_parity 5 (entry_of oca_4_1_8 1 stripe_tail2)) {3}) \<le> unat (1 :: u32)
   \<and> length (bitmap_recxs (found_parity 5 (entry_of oca_4_1_8 1 stripe_head2)) {1, 2, 3})
       \<le> unat (3 :: u32)
   \<and> agg_fetch_odata_cells env_ok (found_parity 5 (entry_of oca_4_1_8 1 stripe_tail2)) {3} 1 False =
       Some (0,
             (found_parity 5 (entry_of oca_4_1_8 1 stripe_tail2))
               \<lparr>ae_sgl_nr := 4, ae_obj_hdl := True, ae_peer_idx := 3\<rparr>,
             [DscObjFetch 1 5 [\<lparr>rx_idx = 24, rx_nr = 8\<rparr>] None])
   \<and> agg_process_partial_stripe_ult env_ok (found_parity 5 (entry_of oca_4_1_8 1 stripe_tail2))
       {3} 1 False =
       Some (0,
             (found_parity 5 (entry_of oca_4_1_8 1 stripe_tail2))
               \<lparr>ae_sgl_nr := 4, ae_obj_hdl := True, ae_peer_idx := 3\<rparr>,
             [DscObjFetch 1 5 [\<lparr>rx_idx = 24, rx_nr = 8\<rparr>] None, EcEncodeDataUpdate 8 3 [0]])
   \<and> agg_fetch_odata_cells env_ok (found_parity 5 (entry_of oca_4_1_8 1 stripe_head2))
       {1, 2, 3} 3 True =
       Some (0,
             (found_parity 5 (entry_of oca_4_1_8 1 stripe_head2))
               \<lparr>ae_sgl_nr := 4, ae_obj_hdl := True, ae_peer_idx := 3\<rparr>,
             [DscObjFetch 1 12 [\<lparr>rx_idx = 8, rx_nr = 8\<rparr>, \<lparr>rx_idx = 16, rx_nr = 8\<rparr>,
                                \<lparr>rx_idx = 24, rx_nr = 8\<rparr>] None])
   \<and> agg_process_partial_stripe_ult env_ok (found_parity 5 (entry_of oca_4_1_8 1 stripe_head2))
       {1, 2, 3} 3 True =
       Some (0,
             (found_parity 5 (entry_of oca_4_1_8 1 stripe_head2))
               \<lparr>ae_sgl_nr := 4, ae_obj_hdl := True, ae_peer_idx := 3\<rparr>,
             [DscObjFetch 1 12 [\<lparr>rx_idx = 8, rx_nr = 8\<rparr>, \<lparr>rx_idx = 16, rx_nr = 8\<rparr>,
                                \<lparr>rx_idx = 24, rx_nr = 8\<rparr>] None,
              EcEncodeData 8 [0]])
   \<and> ape_epoch (ae_par_extent (found_parity 5 (entry_of oca_4_1_8 1 stripe_tail2))) = 5
   \<and> as_hi_epoch (ae_cur_stripe (found_parity 5 (entry_of oca_4_1_8 1 stripe_head2))) = 12"
proof -
  let ?u = "found_parity 5 (entry_of oca_4_1_8 1 stripe_tail2)"
  let ?r = "found_parity 5 (entry_of oca_4_1_8 1 stripe_head2)"
  have al: "ret env_ok OdataAllocRecxs = 0"
    by (simp add: env_ok_def)
  have fu: "length (bitmap_recxs ?u {3}) \<le> unat (1 :: u32)"
    by code_simp
  have fr: "length (bitmap_recxs ?r {1, 2, 3}) \<le> unat (3 :: u32)"
    by code_simp
  have hu: "agg_get_obj_handle env_ok (?u\<lparr>ae_sgl_nr := 1, ae_sgl_base := ae_sgl_base ?u + 1\<rparr>) =
              Some (0, ?u\<lparr>ae_sgl_nr := 1, ae_sgl_base := 1, ae_obj_hdl := True, ae_peer_idx := 3\<rparr>)"
    by code_simp
  have hr: "agg_get_obj_handle env_ok (?r\<lparr>ae_sgl_nr := 1, ae_sgl_base := ae_sgl_base ?r + 1\<rparr>) =
              Some (0, ?r\<lparr>ae_sgl_nr := 1, ae_sgl_base := 1, ae_obj_hdl := True, ae_peer_idx := 3\<rparr>)"
    by code_simp
  have uu: "agg_process_partial_stripe_ult env_ok ?u {3} 1 False =
       Some (0, ?u\<lparr>ae_sgl_nr := 4, ae_obj_hdl := True, ae_peer_idx := 3\<rparr>,
             [DscObjFetch 1 5 [\<lparr>rx_idx = 24, rx_nr = 8\<rparr>] None, EcEncodeDataUpdate 8 3 [0]])"
    by code_simp
  have ur: "agg_process_partial_stripe_ult env_ok ?r {1, 2, 3} 3 True =
       Some (0, ?r\<lparr>ae_sgl_nr := 4, ae_obj_hdl := True, ae_peer_idx := 3\<rparr>,
             [DscObjFetch 1 12 [\<lparr>rx_idx = 8, rx_nr = 8\<rparr>, \<lparr>rx_idx = 16, rx_nr = 8\<rparr>,
                                \<lparr>rx_idx = 24, rx_nr = 8\<rparr>] None,
              EcEncodeData 8 [0]])"
    by code_simp
  have ru: "iod_recxs_of (unat (1 :: u32)) (bitmap_recxs ?u {3}) = [\<lparr>rx_idx = 24, rx_nr = 8\<rparr>]"
    by code_simp
  have rr: "iod_recxs_of (unat (3 :: u32)) (bitmap_recxs ?r {1, 2, 3}) =
              [\<lparr>rx_idx = 8, rx_nr = 8\<rparr>, \<lparr>rx_idx = 16, rx_nr = 8\<rparr>, \<lparr>rx_idx = 24, rx_nr = 8\<rparr>]"
    by code_simp
  from ru have ru': "iod_recxs_of (Suc 0) (bitmap_recxs ?u {3}) = [\<lparr>rx_idx = 24, rx_nr = 8\<rparr>]"
    by simp
  from rr have rr': "iod_recxs_of 3 (bitmap_recxs ?r {Suc 0, 2, 3}) =
              [\<lparr>rx_idx = 8, rx_nr = 8\<rparr>, \<lparr>rx_idx = 16, rx_nr = 8\<rparr>, \<lparr>rx_idx = 24, rx_nr = 8\<rparr>]"
    by simp
  have eu: "ape_epoch (ae_par_extent ?u) = 5" "ae_sgl_base ?u = 0"
    by (simp_all add: found_parity_def entry_of_def)
  have er: "as_hi_epoch (ae_cur_stripe ?r) = 12" "ae_sgl_base ?r = 0"
    by (simp_all add: found_parity_def entry_of_def stripe_head2_def)
  have ok: "ret env_ok OdataFetch = 0"
    by (simp add: env_ok_def)
  from odata_fetch_made_at_strategy_epoch [OF al fu hu, of False]
  have cu: "agg_fetch_odata_cells env_ok ?u {3} 1 False =
       Some (0, ?u\<lparr>ae_sgl_nr := 4, ae_obj_hdl := True, ae_peer_idx := 3\<rparr>,
             [DscObjFetch 1 5 [\<lparr>rx_idx = 24, rx_nr = 8\<rparr>] None])"
    by (simp add: ru' eu ok iov_defs)
  from odata_fetch_made_at_strategy_epoch [OF al fr hr, of True]
  have cr: "agg_fetch_odata_cells env_ok ?r {1, 2, 3} 3 True =
       Some (0, ?r\<lparr>ae_sgl_nr := 4, ae_obj_hdl := True, ae_peer_idx := 3\<rparr>,
             [DscObjFetch 1 12 [\<lparr>rx_idx = 8, rx_nr = 8\<rparr>, \<lparr>rx_idx = 16, rx_nr = 8\<rparr>,
                                \<lparr>rx_idx = 24, rx_nr = 8\<rparr>] None])"
    by (simp add: rr' er ok iov_defs)
  from al fu fr cu uu cr ur eu er show ?thesis by simp
qed

text \<open>In a whole run of \<^verbatim>\<open>agg_process_partial_stripe\<close>, every remote fetch into the
  \<^verbatim>\<open>AGG_IOV_ODATA\<close> slot is made at the epoch that goes with the strategy chosen.\<close>

lemma partial_stripe_odata_fetches_epoch:
  assumes choice: "agg_partial_choice entry = Some (bit_map, cell_cnt, recalc)"
    and run: "agg_process_partial_stripe env entry = Some (rc, e', evs)"
    and ev: "DscObjFetch (ae_sgl_base entry + AGG_IOV_ODATA) epoch recxs shard \<in> set evs"
  shows "epoch = (if recalc then as_hi_epoch (ae_cur_stripe entry)
                  else ape_epoch (ae_par_extent entry))"
proof -
  from run choice obtain rc1 e1 evs1 where
    loc: "agg_fetch_local_extents env entry bit_map cell_cnt recalc = Some (rc1, e1, evs1)"
    by (auto simp: agg_process_partial_stripe_def split: option.splits)
  note fr = agg_fetch_local_extents_frame [OF loc]
  from agg_fetch_local_extents_events [OF loc]
  have no1: "DscObjFetch (ae_sgl_base entry + AGG_IOV_ODATA) epoch recxs shard \<notin> set evs1" .
  from run choice loc ev no1 obtain st e2 evs2 where
    ult: "agg_process_partial_stripe_ult env e1 bit_map cell_cnt recalc = Some (st, e2, evs2)"
    and ev2: "DscObjFetch (ae_sgl_base entry + AGG_IOV_ODATA) epoch recxs shard \<in> set evs2"
    by (auto simp: agg_process_partial_stripe_def split: if_splits option.splits)
  from fr ev2
  have "DscObjFetch (ae_sgl_base e1 + AGG_IOV_ODATA) epoch recxs shard \<in> set evs2"
    by simp
  from agg_process_partial_stripe_ult_odata [OF ult this] fr show ?thesis
    by simp
qed

text \<open>When error codes are not 0, a run with the strategy update that returns 0 has
  made the fetch at the parity's epoch.\<close>

lemma agg_fetch_odata_cells_done:
  assumes "agg_fetch_odata_cells env e bm cnt r = Some (0, e', evs)" and "der_nomem env \<noteq> 0"
  shows "evs = [DscObjFetch (ae_sgl_base e + AGG_IOV_ODATA)
                  (if r then as_hi_epoch (ae_cur_stripe e) else ape_epoch (ae_par_extent e))
                  (iod_recxs_of (unat cnt) (bitmap_recxs e bm)) None]"
  using assms
  by (auto simp: agg_fetch_odata_cells_def Let_def iov_defs split: if_splits option.splits
           dest!: agg_get_obj_handle_frame)

lemma partial_update_run_fetches_at_parity_epoch:
  assumes choice: "agg_partial_choice entry = Some (bit_map, cell_cnt, False)"
    and run: "agg_process_partial_stripe env entry = Some (0, e', evs)"
    and nomem: "der_nomem env \<noteq> 0"
    and abt: "ret env PartEvCreate = abt_success env" "ret env PartEvWait = abt_success env"
  shows "\<exists>recxs. DscObjFetch (ae_sgl_base entry + AGG_IOV_ODATA)
                    (ape_epoch (ae_par_extent entry)) recxs None \<in> set evs"
proof -
  from run choice obtain e1 evs1 where
    loc: "agg_fetch_local_extents env entry bit_map cell_cnt False = Some (0, e1, evs1)"
    by (auto simp: agg_process_partial_stripe_def split: option.splits if_splits)
  note fr = agg_fetch_local_extents_frame [OF loc]
  from run choice loc abt obtain e2 evs2 where
    ult: "agg_process_partial_stripe_ult env e1 bit_map cell_cnt False = Some (0, e2, evs2)"
    and evs: "evs = evs1 @ evs2"
    by (auto simp: agg_process_partial_stripe_def split: option.splits if_splits)
  from ult obtain e3 evs3 where
    od: "agg_fetch_odata_cells env e1 bit_map cell_cnt False = Some (0, e3, evs3)"
    by (auto simp: agg_process_partial_stripe_ult_def split: option.splits if_splits)
  from agg_process_partial_stripe_ult_split [OF ult od] obtain rest where
    "evs2 = evs3 @ rest"
    by auto
  with agg_fetch_odata_cells_done [OF od nomem] evs fr show ?thesis
    by auto
qed

text \<open>A run with the strategy recalc does not get to the helper:
  \<^verbatim>\<open>agg_fetch_local_extents\<close> either fails to allocate its array or stops, on the
  assertion or on the store into \<^verbatim>\<open>recxs[cell_cnt]\<close>.\<close>

lemma partial_recalc_run_stops_at_local_fetch:
  assumes "agg_partial_choice entry = Some (bit_map, cell_cnt, True)"
    and "ret env LocalAllocRecxs = 0"
  shows "agg_process_partial_stripe env entry = None"
  using assms by (simp add: agg_process_partial_stripe_def agg_fetch_local_extents_def)

text \<open>The two stripes above in whole runs of \<^verbatim>\<open>agg_process_partial_stripe\<close>: the
  replica extent in the last cell leads to update, and the fetch at the parity's epoch 5
  follows the local fetch; the replica extent at the head of the stripe leads to recalc,
  and the run stops in \<^verbatim>\<open>agg_fetch_local_extents\<close>.\<close>

lemma partial_stripe_runs_of_both_strategies:
  "agg_partial_choice (found_parity 5 (entry_of oca_4_1_8 1 stripe_tail2)) = Some ({3}, 1, False)
   \<and> agg_process_partial_stripe env_ok (found_parity 5 (entry_of oca_4_1_8 1 stripe_tail2)) =
       Some (0,
             (found_parity 5 (entry_of oca_4_1_8 1 stripe_tail2))
               \<lparr>ae_sgl_nr := 4, ae_obj_hdl := True, ae_peer_idx := 3\<rparr>,
             [VosObjFetch 12 [\<lparr>rx_idx = 24, rx_nr = 8\<rparr>, \<lparr>rx_idx = 0, rx_nr = 0\<rparr>],
              DscObjFetch 1 5 [\<lparr>rx_idx = 24, rx_nr = 8\<rparr>] None,
              EcEncodeDataUpdate 8 3 [0]])
   \<and> agg_partial_choice (found_parity 5 (entry_of oca_4_1_8 1 stripe_head2)) =
       Some ({1, 2, 3}, 3, True)
   \<and> agg_process_partial_stripe env_ok (found_parity 5 (entry_of oca_4_1_8 1 stripe_head2)) = None"
  by code_simp

section \<open>C8: the number of extents of an open stripe\<close>

lemma agg_data_extent_appends:
  assumes sn: "agg_stripenum agg_entry (rx_idx (ie_recx entry)) =
                 Some (as_stripenum (ae_cur_stripe agg_entry))"
    and alloc: "ret env ExtentAlloc = 0"
  shows "\<exists>e'. agg_data_extent env agg_entry entry = Some (0, e', [])
           \<and> as_extent_cnt (ae_cur_stripe e') = as_extent_cnt (ae_cur_stripe agg_entry) + 1
           \<and> as_stripenum (ae_cur_stripe e') = as_stripenum (ae_cur_stripe agg_entry)
           \<and> ae_oca e' = ae_oca agg_entry"
proof -
  from sn have "e_k (ae_oca agg_entry) * e_len (ae_oca agg_entry) \<noteq> 0"
    by (auto simp: agg_stripenum_def obj_ec_stripe_rec_nr_def split: if_splits)
  then have nz: "e_len (ae_oca agg_entry) * e_k (ae_oca agg_entry) \<noteq> 0"
    by (simp add: mult.commute)
  show ?thesis
    using sn alloc nz
    by (auto simp: agg_data_extent_def agg_add_extent_def agg_in_stripe_def Let_def)
qed

lemma agg_data_extents_appends:
  "list_all (\<lambda>x. agg_stripenum e (rx_idx (ie_recx x)) = Some (as_stripenum (ae_cur_stripe e))) xs
   \<Longrightarrow> ret env ExtentAlloc = 0
   \<Longrightarrow> \<exists>e'. agg_data_extents env e xs = Some (0, e', [])
          \<and> as_extent_cnt (ae_cur_stripe e') = as_extent_cnt (ae_cur_stripe e) + of_nat (length xs)
          \<and> as_stripenum (ae_cur_stripe e') = as_stripenum (ae_cur_stripe e)
          \<and> ae_oca e' = ae_oca e"
proof (induction xs arbitrary: e)
  case Nil
  then show ?case by simp
next
  case (Cons x xs)
  from Cons.prems have sn: "agg_stripenum e (rx_idx (ie_recx x)) = Some (as_stripenum (ae_cur_stripe e))"
    by simp
  from agg_data_extent_appends [OF sn Cons.prems(2)] obtain e1 where
    step: "agg_data_extent env e x = Some (0, e1, [])"
    and cnt: "as_extent_cnt (ae_cur_stripe e1) = as_extent_cnt (ae_cur_stripe e) + 1"
    and same: "as_stripenum (ae_cur_stripe e1) = as_stripenum (ae_cur_stripe e)"
    and oca: "ae_oca e1 = ae_oca e"
    by blast
  have "agg_stripenum e1 y = agg_stripenum e y" for y
    by (simp add: agg_stripenum_def oca)
  with Cons.prems same
  have "list_all (\<lambda>x. agg_stripenum e1 (rx_idx (ie_recx x)) = Some (as_stripenum (ae_cur_stripe e1))) xs"
    by simp
  from Cons.IH [OF this Cons.prems(2)] obtain e' where
    rest: "agg_data_extents env e1 xs = Some (0, e', [])"
    and cnt': "as_extent_cnt (ae_cur_stripe e') = as_extent_cnt (ae_cur_stripe e1) + of_nat (length xs)"
    and same': "as_stripenum (ae_cur_stripe e') = as_stripenum (ae_cur_stripe e1)"
    and oca': "ae_oca e' = ae_oca e1"
    by blast
  from step rest cnt cnt' same same' oca oca' show ?case
    by simp
qed

lemma unit_extents_in_stripe_0:
  "n \<le> 2048 \<Longrightarrow>
   list_all (\<lambda>x. agg_stripenum (entry_of oca_4_1_512 1 stripe_empty) (rx_idx (ie_recx x)) =
                   Some (as_stripenum (ae_cur_stripe (entry_of oca_4_1_512 1 stripe_empty))))
     (unit_extents n)"
proof -
  assume n: "n \<le> 2048"
  have "(word_of_nat i :: u64) div 2048 = 0" if "i < n" for i
  proof -
    from that n have "i < 2048" by simp
    then have "unat (word_of_nat i :: u64) = i"
      by (simp add: unat_of_nat)
    with \<open>i < 2048\<close> show ?thesis
      by (simp add: word_unat_eq_iff unat_div)
  qed
  then show ?thesis
    by (simp add: unit_extents_def list_all_iff agg_stripenum_def obj_ec_stripe_rec_nr_def
          oca_4_1_512_def entry_of_def stripe_empty_def)
qed

text \<open>
  C8, as amended. No cap is applied to the extents of an open stripe:
  \<^verbatim>\<open>EC_AGG_CREDITS_MAX\<close> is defined and never read. When the extents of a run all belong
  to the open stripe and the allocations succeed, every one of them is put on the list,
  no reconcile is made (the run makes no call to the store or to a peer and returns
  0), and \<open>as_extent_cnt\<close> ends at its start value plus the length of the run, as a
  32-bit number.
\<close>

theorem extents_accumulate_without_cap:
  assumes "list_all (\<lambda>x. agg_stripenum agg_entry (rx_idx (ie_recx x)) =
                            Some (as_stripenum (ae_cur_stripe agg_entry))) xs"
    and "ret env ExtentAlloc = 0"
  shows "\<exists>e'. agg_data_extents env agg_entry xs = Some (0, e', [])
           \<and> as_extent_cnt (ae_cur_stripe e') =
               as_extent_cnt (ae_cur_stripe agg_entry) + of_nat (length xs)
           \<and> as_stripenum (ae_cur_stripe e') = as_stripenum (ae_cur_stripe agg_entry)
           \<and> ae_oca e' = ae_oca agg_entry"
  using assms by (rule agg_data_extents_appends)

text \<open>Three one-record extents arrive for the empty stripe 0 of a \<open>k = 4\<close>,
  \<open>len = 512\<close> object: the count is 3.\<close>

theorem extents_accumulate_without_cap_witness:
  "list_all (\<lambda>x. agg_stripenum (entry_of oca_4_1_512 1 stripe_empty) (rx_idx (ie_recx x)) =
                   Some (as_stripenum (ae_cur_stripe (entry_of oca_4_1_512 1 stripe_empty))))
     (unit_extents 3)
   \<and> ret env_ok ExtentAlloc = 0
   \<and> extent_cnt_of (agg_data_extents env_ok (entry_of oca_4_1_512 1 stripe_empty)
                       (unit_extents 3)) = Some 3"
proof -
  have a: "list_all (\<lambda>x. agg_stripenum (entry_of oca_4_1_512 1 stripe_empty) (rx_idx (ie_recx x)) =
                   Some (as_stripenum (ae_cur_stripe (entry_of oca_4_1_512 1 stripe_empty))))
     (unit_extents 3)"
    by (rule unit_extents_in_stripe_0) simp
  have b: "ret env_ok ExtentAlloc = 0" by (simp add: env_ok_def)
  from extents_accumulate_without_cap [OF a b] obtain e' where
    "agg_data_extents env_ok (entry_of oca_4_1_512 1 stripe_empty) (unit_extents 3)
       = Some (0, e', [])"
    "as_extent_cnt (ae_cur_stripe e') =
       as_extent_cnt (ae_cur_stripe (entry_of oca_4_1_512 1 stripe_empty))
         + of_nat (length (unit_extents 3))"
    by blast
  then have "extent_cnt_of (agg_data_extents env_ok (entry_of oca_4_1_512 1 stripe_empty)
                       (unit_extents 3)) = Some 3"
    by (simp add: extent_cnt_of_def entry_of_def stripe_empty_def unit_extents_def)
  with a b show ?thesis by simp
qed

text \<open>
  C8 as stated fails: 1025 one-record extents at alternating epochs, all in stripe 0 of
  a \<open>k = 4\<close>, \<open>len = 512\<close> object, are all accumulated, and \<open>as_extent_cnt\<close> is 1025.
\<close>

theorem extent_cnt_exceeds_credits_max:
  "extent_cnt_of (agg_data_extents env_ok (entry_of oca_4_1_512 1 stripe_empty)
                    (unit_extents 1025)) = Some 1025
   \<and> \<not> 1025 \<le> EC_AGG_CREDITS_MAX"
proof -
  have ok: "ret env_ok ExtentAlloc = 0" by (simp add: env_ok_def)
  have len: "length (unit_extents 1025) = 1025" by (simp add: unit_extents_def)
  from agg_data_extents_appends [OF unit_extents_in_stripe_0 ok, of 1025]
  obtain e' where
    "agg_data_extents env_ok (entry_of oca_4_1_512 1 stripe_empty) (unit_extents 1025)
       = Some (0, e', [])"
    "as_extent_cnt (ae_cur_stripe e') =
       as_extent_cnt (ae_cur_stripe (entry_of oca_4_1_512 1 stripe_empty)) + of_nat 1025"
    by (auto simp: len)
  then show ?thesis
    by (simp add: extent_cnt_of_def entry_of_def stripe_empty_def EC_AGG_CREDITS_MAX_def)
qed

section \<open>C9: the bulk payload of the parity-write request\<close>

text \<open>
  C9, at a failing input. With \<open>p = 2\<close>, \<open>len = 8\<close> and a record size of 2 the cell has
  16 bytes. The encoder is given \<^verbatim>\<open>parity_bufs\<close> at byte offsets 0 and 16 of the parity
  buffer, so the peer's cell is the 16 bytes from offset 16. The request that
  \<^verbatim>\<open>agg_peer_update_ult\<close> sends has \<open>prior_len\<close> and \<open>after_len\<close> equal to the stripe's
  prefix and suffix, and a bulk iov of 16 bytes that starts at offset 8.
\<close>

theorem peer_bulk_starts_at_len_bytes:
  "agg_process_stripe env_ok (entry_of oca_4_2_8 2 stripe_full) =
     Some (0,
           (entry_of oca_4_2_8 2
              (stripe_full\<lparr>as_hi_epoch := 0, as_dextents := [], as_stripe_fill := 0,
                            as_extent_cnt := 0\<rparr>))
             \<lparr>ae_sgl_nr := 4, ae_obj_hdl := True, ae_peer_rank := 0, ae_peer_idx := 3,
              ae_par_extent := \<lparr>ape_recx = \<lparr>rx_idx = 0, rx_nr = 0\<rparr>, ape_epoch = - 1\<rparr>\<rparr>,
           [VosObjFetch 5 [\<lparr>rx_idx = 0, rx_nr = 32\<rparr>],
            EcEncodeData 16 [0, 16],
            RpcEcAggregate
              \<lparr>ea_oid_shard = 4, ea_rsize = 2, ea_epoch = 5, ea_stripenum = 0,
               ea_prior_len = 0, ea_after_len = 0, ea_bulk_off = 8, ea_bulk_len = 16\<rparr>,
            VosArrayRemove 0 5 \<lparr>rx_idx = 0, rx_nr = 32\<rparr>,
            VosObjUpdate 5 [\<lparr>rx_idx = PARITY_INDICATOR, rx_nr = 8\<rparr>]])"
  by (simp add: ex_defs iov_defs stripe_defs agg_peer_update_def agg_peer_update_ult_def
        agg_peer_update_req_def agg_get_obj_handle_def upt_rec)

text \<open>With a record size of 1 the iov is the cell at offset \<open>cell_bytes\<close>.\<close>

lemma agg_peer_update_req_rsize_1:
  assumes "ae_rsize entry = 1"
  shows "ea_bulk_off (agg_peer_update_req entry) = ucast (cell_bytes_of entry)
         \<and> ea_bulk_len (agg_peer_update_req entry) = ucast (cell_bytes_of entry)"
  by (simp add: agg_peer_update_req_def cell_bytes_of_def assms ucast_up_down)

section \<open>C10: the hole flag of the cleared stripe\<close>

lemma agg_clear_loop_hole:
  "agg_clear_loop oca xs st = Some st' \<Longrightarrow>
     fst (snd st') = (fst (snd st) \<or> list_ex ae_hole xs)"
proof (induction xs arbitrary: st)
  case Nil
  then show ?case by simp
next
  case (Cons x xs)
  obtain pt h pf c k where st: "st = (pt, h, pf, c, k)"
    by (cases st) auto
  from Cons.prems obtain tail where t: "agg_carry_over oca x = Some tail"
    by (auto simp: st split: option.splits)
  show ?case
  proof (cases "tail = 0")
    case True
    with Cons.prems t
    have "agg_clear_loop oca xs (pt, (if ae_hole x then True else h), pf, c - 1, k) = Some st'"
      by (simp add: st)
    from Cons.IH [OF this] show ?thesis by (auto simp: st)
  next
    case False
    with Cons.prems t
    have "agg_clear_loop oca xs
            (tail, (if ae_hole x then True else h), ucast (rx_nr (ae_recx x) - ucast tail), c,
             k @ [x\<lparr>ae_recx := \<lparr>rx_idx = rx_idx (ae_recx x) + (rx_nr (ae_recx x) - ucast tail),
                                   rx_nr = ucast tail\<rparr>\<rparr>]) = Some st'"
      by (simp add: st split: if_splits)
    from Cons.IH [OF this] show ?thesis by (auto simp: st)
  qed
qed

lemma agg_clear_extents_holes:
  "agg_clear_extents e = Some e' \<Longrightarrow>
     as_has_holes (ae_cur_stripe e') = list_ex ae_hole (as_dextents (ae_cur_stripe e))"
  by (auto simp: agg_clear_extents_def Let_def split: option.splits if_splits
           dest!: agg_clear_loop_hole)

text \<open>
  C10. Whenever \<^verbatim>\<open>agg_process_stripe\<close> returns, the \<open>as_has_holes\<close> flag it leaves for
  the next stripe is true if and only if some extent on the list of the stripe just
  processed was a hole, whether or not that extent is the one carried over.
\<close>

theorem cleared_stripe_inherits_holes:
  assumes "agg_process_stripe env entry = Some (rc, e', evs)"
  shows "as_has_holes (ae_cur_stripe e') =
           list_ex ae_hole (as_dextents (ae_cur_stripe entry))"
proof -
  from assms obtain rc0 e1 rc1 u h e2 evs1 e3 evs2 where
    q: "agg_query_parity env entry = Some (rc0, e1)" and
    b: "agg_process_stripe_body env rc0 e1 = Some (rc1, u, h, e2, evs1)" and
    out: "agg_process_stripe_out env rc1 u h e2 = Some (rc, e3, evs2)" and
    c: "agg_clear_extents e3 = Some e'"
    by (auto simp: agg_process_stripe_def split: option.splits)
  from agg_query_parity_frame [OF q] agg_process_stripe_body_frame [OF b]
       agg_process_stripe_out_frame [OF out]
  have "as_dextents (ae_cur_stripe e3) = as_dextents (ae_cur_stripe entry)"
    by simp
  with agg_clear_extents_holes [OF c] show ?thesis by simp
qed


text \<open>Stripe 0 holds a hole over records 0 to 3 and a data extent over records 30 to 33
  that carries over. After the stripe is processed the list holds the tail of the data
  extent alone, which is not a hole, and \<open>as_has_holes\<close> is true.\<close>

theorem cleared_stripe_inherits_holes_witness:
  "agg_process_stripe (env_ok\<lparr>probe_entries := [parity_at 20]\<rparr>)
       (entry_of oca_4_1_8 1 stripe_hole_cross) =
     Some (0,
           (entry_of oca_4_1_8 1
              \<lparr>as_stripenum = 0, as_hi_epoch = 0,
               as_dextents = [\<lparr>ae_recx = \<lparr>rx_idx = 32, rx_nr = 2\<rparr>, ae_epoch = 11,
                               ae_hole = False\<rparr>],
               as_stripe_fill = 2, as_extent_cnt = 1, as_offset = 0, as_prefix_ext = 2,
               as_suffix_ext = 0, as_has_holes = True\<rparr>)
             \<lparr>ae_par_extent := \<lparr>ape_recx = fst (parity_at 20), ape_epoch = 20\<rparr>\<rparr>,
           [])
   \<and> list_ex ae_hole (as_dextents (ae_cur_stripe (entry_of oca_4_1_8 1 stripe_hole_cross)))"
proof -
  have run: "agg_process_stripe (env_ok\<lparr>probe_entries := [parity_at 20]\<rparr>)
       (entry_of oca_4_1_8 1 stripe_hole_cross) =
     Some (0,
           (entry_of oca_4_1_8 1
              \<lparr>as_stripenum = 0, as_hi_epoch = 0,
               as_dextents = [\<lparr>ae_recx = \<lparr>rx_idx = 32, rx_nr = 2\<rparr>, ae_epoch = 11,
                               ae_hole = False\<rparr>],
               as_stripe_fill = 2, as_extent_cnt = 1, as_offset = 0, as_prefix_ext = 2,
               as_suffix_ext = 0, as_has_holes = True\<rparr>)
             \<lparr>ae_par_extent := \<lparr>ape_recx = fst (parity_at 20), ape_epoch = 20\<rparr>\<rparr>,
           [])"
    by (simp add: ex_defs iov_defs stripe_defs)
  from cleared_stripe_inherits_holes [OF run] run show ?thesis
    by (simp add: entry_of_def)
qed

text \<open>The flag steers the next stripe. When an extent of stripe 1 arrives, the stripe
  above is processed and cleared; the list of stripe 1 then holds the carried-over tail
  and the new extent, neither of them a hole, and \<open>as_has_holes\<close> is true. With a
  parity extent of stripe 1 at an older epoch, that stripe is reconciled on the hole
  path at akey exit.\<close>

lemma inherited_hole_flag_takes_hole_path:
  "agg_data_extent env_ok (entry_of oca_4_1_8 1 stripe_hole_cross)
       \<lparr>ie_recx = \<lparr>rx_idx = 40, rx_nr = 4\<rparr>, ie_epoch = 13, ie_rsize = 1, ie_hole = False\<rparr> =
     Some (0,
           (entry_of oca_4_1_8 1
              \<lparr>as_stripenum = 1, as_hi_epoch = 13,
               as_dextents = [\<lparr>ae_recx = \<lparr>rx_idx = 32, rx_nr = 2\<rparr>, ae_epoch = 11,
                               ae_hole = False\<rparr>,
                              \<lparr>ae_recx = \<lparr>rx_idx = 40, rx_nr = 4\<rparr>, ae_epoch = 13,
                               ae_hole = False\<rparr>],
               as_stripe_fill = 6, as_extent_cnt = 2, as_offset = 0, as_prefix_ext = 2,
               as_suffix_ext = 0, as_has_holes = True\<rparr>)
             \<lparr>ae_par_extent := \<lparr>ape_recx = \<lparr>rx_idx = 0, rx_nr = 0\<rparr>, ape_epoch = - 1\<rparr>\<rparr>,
           [])
   \<and> agg_akey_post
       (env_ok\<lparr>probe_entries := [(\<lparr>rx_idx = PARITY_INDICATOR OR 8, rx_nr = 8\<rparr>, 5)]\<rparr>)
       ((entry_of oca_4_1_8 1
           \<lparr>as_stripenum = 1, as_hi_epoch = 13,
            as_dextents = [\<lparr>ae_recx = \<lparr>rx_idx = 32, rx_nr = 2\<rparr>, ae_epoch = 11,
                            ae_hole = False\<rparr>,
                           \<lparr>ae_recx = \<lparr>rx_idx = 40, rx_nr = 4\<rparr>, ae_epoch = 13,
                            ae_hole = False\<rparr>],
            as_stripe_fill = 6, as_extent_cnt = 2, as_offset = 0, as_prefix_ext = 2,
            as_suffix_ext = 0, as_has_holes = True\<rparr>)
          \<lparr>ae_par_extent := \<lparr>ape_recx = \<lparr>rx_idx = 0, rx_nr = 0\<rparr>, ape_epoch = - 1\<rparr>\<rparr>) =
     Some (0,
           (entry_of oca_4_1_8 1 (stripe_empty\<lparr>as_stripenum := 1\<rparr>))
             \<lparr>ae_sgl_nr := 4, ae_obj_hdl := True, ae_peer_idx := 3,
              ae_par_extent := \<lparr>ape_recx = \<lparr>rx_idx = PARITY_INDICATOR OR 8, rx_nr = 8\<rparr>,
                                ape_epoch = 5\<rparr>\<rparr>,
           [DscObjFetch 0 13 [\<lparr>rx_idx = 34, rx_nr = 6\<rparr>, \<lparr>rx_idx = 46, rx_nr = 46\<rparr>] None,
            RpcEcReplicate
              \<lparr>er_oid_shard = 3, er_iod_size = 1,
               er_iod_recxs = [\<lparr>rx_idx = 34, rx_nr = 6\<rparr>, \<lparr>rx_idx = 46, rx_nr = 46\<rparr>],
               er_stripenum = 1, er_epoch = 13\<rparr>,
            VosObjUpdate 13 [\<lparr>rx_idx = 34, rx_nr = 6\<rparr>, \<lparr>rx_idx = 46, rx_nr = 46\<rparr>],
            VosArrayRemove 0 13 \<lparr>rx_idx = PARITY_INDICATOR OR 8, rx_nr = 8\<rparr>])"
  by code_simp

end
